theory Spec2Isabelle
  imports Main "HOL-Library.Sublist"
begin

section \<open>Values, thrown errors and strings\<close>

text \<open>
  JavaScript values as far as the engine inspects them. Numbers are restricted to
  integers; \<open>JUndefined\<close> stands for an absent value.
\<close>

datatype json =
    JUndefined
  | JNull
  | JBool bool
  | JNum int
  | JStr string
  | JArr "json list"
  | JObj "(string \<times> json) list"

text \<open>Truthiness, as \<open>!x\<close>, \<open>x || y\<close> and \<open>x ? a : b\<close> test it.\<close>

fun truthy :: "json \<Rightarrow> bool" where
  "truthy JUndefined = False"
| "truthy JNull = False"
| "truthy (JBool b) = b"
| "truthy (JNum n) = (n \<noteq> 0)"
| "truthy (JStr s) = (s \<noteq> [])"
| "truthy (JArr xs) = True"
| "truthy (JObj kvs) = True"

text \<open>
  A thrown value is an \<open>Error\<close> instance: its \<open>name\<close> and its \<open>message\<close>.
  \<open>String(e)\<close> is \<open>Error.prototype.toString\<close>.
\<close>

datatype thrown = Thrown (ename: string) (message: string)

definition Error :: "string \<Rightarrow> thrown" where
  "Error m = Thrown ''Error'' m"

definition TypeError :: "string \<Rightarrow> thrown" where
  "TypeError m = Thrown ''TypeError'' m"

definition String_thrown :: "thrown \<Rightarrow> string" where
  "String_thrown e =
     (if ename e = [] then message e
      else if message e = [] then ename e
      else ename e @ '': '' @ message e)"

definition startsWith :: "string \<Rightarrow> string \<Rightarrow> bool" where
  "startsWith s p = (take (length p) s = p)"

text \<open>Decimal rendering of a counter inside a template string.\<close>

definition digit_char :: "nat \<Rightarrow> char" where
  "digit_char d = char_of (48 + d)"

function string_of_nat :: "nat \<Rightarrow> string" where
  "string_of_nat n =
     (if n < 10 then [digit_char n] else string_of_nat (n div 10) @ [digit_char (n mod 10)])"
  by pat_completeness auto
termination
  by (relation "measure id") auto

declare string_of_nat.simps [simp del]

section \<open>Data model of the call executor\<close>

text \<open>
  Modelled from the spec: the types of \<open>@superglue/client\<close> are not among the sources.
  The enumerations have the values the spec lists (self-healing \<open>DISABLED\<close>,
  \<open>ENABLED\<close>, \<open>REQUEST_ONLY\<close>; cache mode \<open>DISABLED\<close>, \<open>ENABLED\<close>,
  \<open>READONLY\<close>, \<open>WRITEONLY\<close>), each a non-empty string at run time; the records hold
  the fields the code reads, an optional field as an \<open>option\<close>.
\<close>

datatype SelfHealingMode = DISABLED | ENABLED | REQUEST_ONLY

datatype CacheMode = CACHE_DISABLED | CACHE_ENABLED | CACHE_READONLY | CACHE_WRITEONLY

record RequestOptions =
  selfHealing :: "SelfHealingMode option"
  cacheMode :: "CacheMode option"
  retries :: "int option"
  webhookUrl :: "string option"
  testMode :: "bool option"

record ApiConfig =
  configId :: string
  urlHost :: string
  instruction :: string
  responseSchema :: json

record Integration =
  integrationId :: string
  documentation :: "string option"
  documentationPending :: bool

type_synonym credentials = "(string \<times> string) list"

datatype role = User | Assistant | System

record chat_message =
  msg_role :: role
  content :: string

text \<open>
  \<open>isSelfHealingEnabled\<close>: \<open>options?.selfHealing ? (... === ENABLED || ... === REQUEST_ONLY) : true\<close>.
  The caller's options may be absent altogether (\<open>None\<close>); every enum value is a
  non-empty string, hence truthy.
\<close>

definition isSelfHealingEnabled :: "RequestOptions option \<Rightarrow> bool" where
  "isSelfHealingEnabled options =
     (case options of
        None \<Rightarrow> True
      | Some opts \<Rightarrow>
          (case selfHealing opts of
             None \<Rightarrow> True
           | Some m \<Rightarrow> m = ENABLED \<or> m = REQUEST_ONLY))"


section \<open>The self-healing call executor\<close>

text \<open>
  The collaborators of \<open>executeApiCall\<close>. Each effectful one takes the state of the
  outside world and returns the next one, together with either the thrown error
  (\<open>Inl\<close>) or its value (\<open>Inr\<close>). \<open>callEndpoint\<close> returns the \<open>data\<close> of its
  response. \<open>maskCredentials\<close>, \<open>JSON.stringify\<close> and the constant
  \<open>PROMPT_MAPPING\<close> are pure. \<open>logMessage\<close> and the telemetry client are sinks
  without influence on the result and are left out.
\<close>

record 'w exec_env =
  generateApiConfig ::
    "ApiConfig \<Rightarrow> string \<Rightarrow> json \<Rightarrow> credentials \<Rightarrow> nat \<Rightarrow> chat_message list \<Rightarrow> 'w
       \<Rightarrow> (thrown + ApiConfig \<times> chat_message list) \<times> 'w"
  callEndpoint ::
    "ApiConfig \<Rightarrow> json \<Rightarrow> credentials \<Rightarrow> RequestOptions option \<Rightarrow> 'w \<Rightarrow> (thrown + json) \<times> 'w"
  evaluateResponse ::
    "json \<Rightarrow> json \<Rightarrow> string \<Rightarrow> 'w \<Rightarrow> (thrown + bool \<times> string) \<times> 'w"
  maskCredentials :: "string \<Rightarrow> credentials \<Rightarrow> string"
  JSON_stringify :: "json \<Rightarrow> string"
  PROMPT_MAPPING :: string

text \<open>
  The invocations of the collaborators, in order, each with the attempt index
  (\<open>retryCount\<close>) at which it happens: the synthesizer with the config, documentation
  string and transcript it is given, the transport caller with its config, the
  validator with the data it judges.
\<close>

datatype call_event =
    Generated nat ApiConfig string "chat_message list"
  | Called nat ApiConfig
  | Evaluated nat json

text \<open>The local variables of \<open>executeApiCall\<close> that the loop updates.\<close>

record 'w exec_state =
  world :: 'w
  endpoint :: ApiConfig
  messages :: "chat_message list"
  response :: "json option"
  success :: bool
  lastError :: "string option"
  calls :: "call_event list"

record ExecResult =
  res_data :: json
  res_endpoint :: ApiConfig

text \<open>
  The documentation block before the loop. With no integration and self-healing
  disabled, the third condition reads \<open>integration.documentation\<close> of
  \<open>undefined\<close>, which throws a \<open>TypeError\<close> outside the \<open>try\<close>.
\<close>

definition undefined_documentation :: thrown where
  "undefined_documentation =
     TypeError (''Cannot read properties of undefined (reading '' @ [CHR 0x27] @
                ''documentation'' @ [CHR 0x27] @ '')'')"

definition documentationString :: "Integration option \<Rightarrow> bool \<Rightarrow> thrown + string" where
  "documentationString integration isSelfHealing =
     (if integration = None \<and> isSelfHealing then Inr []
      else if (case integration of None \<Rightarrow> False | Some i \<Rightarrow> documentationPending i) then Inr []
      else (case integration of
              None \<Rightarrow> Inl undefined_documentation
            | Some i \<Rightarrow>
                (case documentation i of
                   None \<Rightarrow> Inr []
                 | Some d \<Rightarrow> Inr d)))"

definition retryLimit :: "RequestOptions option \<Rightarrow> int" where
  "retryLimit options =
     (case options of
        None \<Rightarrow> 8
      | Some opts \<Rightarrow> (case retries opts of None \<Rightarrow> 8 | Some r \<Rightarrow> r))"

text \<open>The \<open>try\<close> block, in its three steps. \<open>None\<close>: the step completed; \<open>Some e\<close>: it threw \<open>e\<close>.\<close>

definition regenerate ::
  "'w exec_env \<Rightarrow> json \<Rightarrow> credentials \<Rightarrow> string \<Rightarrow> bool \<Rightarrow> nat \<Rightarrow> 'w exec_state
     \<Rightarrow> thrown option \<times> 'w exec_state" where
  "regenerate env payload creds doc isSelfHealing retryCount st =
     (if retryCount > 0 \<and> isSelfHealing then
        (let ev = Generated retryCount (endpoint st) doc (messages st) in
         case generateApiConfig env (endpoint st) doc payload creds retryCount (messages st) (world st) of
           (Inl e, w) \<Rightarrow> (Some e, st\<lparr>world := w, calls := calls st @ [ev]\<rparr>)
         | (Inr (config, msgs), w) \<Rightarrow>
             (None, st\<lparr>world := w, endpoint := config, messages := msgs, calls := calls st @ [ev]\<rparr>))
      else (None, st))"

definition no_data :: thrown where
  "no_data = Error ''No data returned from API. This could be due to a configuration error.''"

definition transport ::
  "'w exec_env \<Rightarrow> json \<Rightarrow> credentials \<Rightarrow> RequestOptions option \<Rightarrow> nat \<Rightarrow> 'w exec_state
     \<Rightarrow> thrown option \<times> 'w exec_state" where
  "transport env payload creds options retryCount st =
     (let ev = Called retryCount (endpoint st) in
      case callEndpoint env (endpoint st) payload creds options (world st) of
        (Inl e, w) \<Rightarrow> (Some e, st\<lparr>world := w, calls := calls st @ [ev]\<rparr>)
      | (Inr d, w) \<Rightarrow>
          (if \<not> truthy d then Some no_data else None,
           st\<lparr>world := w, response := Some d, calls := calls st @ [ev]\<rparr>))"

definition response_data :: "'w exec_state \<Rightarrow> json" where
  "response_data st = (case response st of None \<Rightarrow> JUndefined | Some d \<Rightarrow> d)"

definition validate ::
  "'w exec_env \<Rightarrow> bool \<Rightarrow> nat \<Rightarrow> 'w exec_state \<Rightarrow> thrown option \<times> 'w exec_state" where
  "validate env isSelfHealing retryCount st =
     (if retryCount > 0 \<and> isSelfHealing then
        (let d = response_data st; ev = Evaluated retryCount d in
         case evaluateResponse env d (responseSchema (endpoint st)) (instruction (endpoint st)) (world st) of
           (Inl e, w) \<Rightarrow> (Some e, st\<lparr>world := w, calls := calls st @ [ev]\<rparr>)
         | (Inr (ok, shortReason), w) \<Rightarrow>
             (if \<not> ok then Some (Error (shortReason @ '' '' @ take 1000 (JSON_stringify env d)))
              else None,
              st\<lparr>world := w, success := ok, calls := calls st @ [ev]\<rparr>))
      else (None, st\<lparr>success := True\<rparr>))"

definition attempt ::
  "'w exec_env \<Rightarrow> json \<Rightarrow> credentials \<Rightarrow> RequestOptions option \<Rightarrow> string \<Rightarrow> bool \<Rightarrow> nat
     \<Rightarrow> 'w exec_state \<Rightarrow> thrown option \<times> 'w exec_state" where
  "attempt env payload creds options doc isSelfHealing retryCount st =
     (case regenerate env payload creds doc isSelfHealing retryCount st of
        (Some e, st1) \<Rightarrow> (Some e, st1)
      | (None, st1) \<Rightarrow>
          (case transport env payload creds options retryCount st1 of
             (Some e, st2) \<Rightarrow> (Some e, st2)
           | (None, st2) \<Rightarrow> validate env isSelfHealing retryCount st2))"

text \<open>
  The \<open>catch\<close> block. \<open>error?.message || JSON.stringify(error || {})\<close>: an \<open>Error\<close>
  with an empty message has no enumerable property of its own and renders as \<open>{}\<close>.
\<close>

definition rawErrorString :: "thrown \<Rightarrow> string" where
  "rawErrorString e = (if message e \<noteq> [] then message e else ''{}'')"

definition user_message :: "string \<Rightarrow> chat_message" where
  "user_message s = \<lparr>msg_role = User, content = s\<rparr>"

definition fix_prefix :: string where
  "fix_prefix = ''There was an error with the configuration, please fix: ''"

definition guide_prefix :: string where
  "guide_prefix = ''Please find the JSONata guide here:''"

definition push_feedback :: "'w exec_env \<Rightarrow> string \<Rightarrow> chat_message list \<Rightarrow> chat_message list" where
  "push_feedback env raw msgs =
     (let msgs1 = msgs @ [user_message (fix_prefix @ take 2000 raw)] in
      if startsWith raw ''JSONata'' \<and> \<not> list_ex (\<lambda>m. startsWith (content m) guide_prefix) msgs1
      then msgs1 @ [user_message (''Please find the JSONata guide here: '' @ PROMPT_MAPPING env)]
      else msgs1)"

definition on_error ::
  "'w exec_env \<Rightarrow> credentials \<Rightarrow> nat \<Rightarrow> thrown \<Rightarrow> 'w exec_state \<Rightarrow> 'w exec_state" where
  "on_error env creds retryCount e st =
     (let raw = rawErrorString e;
          st1 = st\<lparr>lastError := Some (take 1000 (maskCredentials env raw creds))\<rparr>
      in if retryCount = 0 then st1
         else st1\<lparr>messages := push_feedback env raw (messages st1)\<rparr>)"

text \<open>
  The \<open>do ... while (retryCount < limit)\<close> loop; it returns the final \<open>retryCount\<close>
  with the final state. A successful attempt leaves by \<open>break\<close>, before the increment.
\<close>

function retry_loop ::
  "'w exec_env \<Rightarrow> json \<Rightarrow> credentials \<Rightarrow> RequestOptions option \<Rightarrow> string \<Rightarrow> bool \<Rightarrow> int
     \<Rightarrow> nat \<Rightarrow> 'w exec_state \<Rightarrow> nat \<times> 'w exec_state" where
  "retry_loop env payload creds options doc isSelfHealing limit retryCount st =
     (case attempt env payload creds options doc isSelfHealing retryCount st of
        (None, st1) \<Rightarrow> (retryCount, st1)
      | (Some e, st1) \<Rightarrow>
          (let st2 = on_error env creds retryCount e st1 in
           if int (Suc retryCount) < limit
           then retry_loop env payload creds options doc isSelfHealing limit (Suc retryCount) st2
           else (Suc retryCount, st2)))"
  by pat_completeness auto
termination
  by (relation "measure (\<lambda>(env, payload, creds, options, doc, sh, limit, retryCount, st).
        nat (limit - int retryCount))") auto

declare retry_loop.simps [simp del]

definition initial_state :: "ApiConfig \<Rightarrow> 'w \<Rightarrow> 'w exec_state" where
  "initial_state config w =
     \<lparr>world = w, endpoint = config, messages = [], response = None, success = False,
      lastError = None, calls = []\<rparr>"

definition exhausted :: "nat \<Rightarrow> string option \<Rightarrow> thrown" where
  "exhausted retryCount lastErr =
     Error (''API call failed after '' @ string_of_nat retryCount @ '' retries. Last error: '' @
            (case lastErr of None \<Rightarrow> ''null'' | Some s \<Rightarrow> s))"

definition executeApiCall ::
  "'w exec_env \<Rightarrow> ApiConfig \<Rightarrow> json \<Rightarrow> credentials \<Rightarrow> RequestOptions option
     \<Rightarrow> Integration option \<Rightarrow> 'w \<Rightarrow> (thrown + ExecResult) \<times> 'w exec_state" where
  "executeApiCall env config payload creds options integration w =
     (let isSelfHealing = isSelfHealingEnabled options in
      case documentationString integration isSelfHealing of
        Inl e \<Rightarrow> (Inl e, initial_state config w)
      | Inr doc \<Rightarrow>
          (case retry_loop env payload creds options doc isSelfHealing (retryLimit options) 0
                  (initial_state config w) of
             (retryCount, st) \<Rightarrow>
               (if \<not> success st then Inl (exhausted retryCount (lastError st))
                else Inr \<lparr>res_data = response_data st, res_endpoint = endpoint st\<rparr>,
                st)))"


section \<open>Stating properties of a run\<close>

text \<open>Projections of the recorded collaborator invocations.\<close>

definition is_Called :: "call_event \<Rightarrow> bool" where
  "is_Called ev = (case ev of Called k c \<Rightarrow> True | _ \<Rightarrow> False)"

definition transport_calls :: "'w exec_state \<Rightarrow> nat" where
  "transport_calls st = length (filter is_Called (calls st))"

fun event_attempt :: "call_event \<Rightarrow> nat" where
  "event_attempt (Generated k c d ms) = k"
| "event_attempt (Called k c) = k"
| "event_attempt (Evaluated k d) = k"

text \<open>The invocations between a state and a later one.\<close>

definition new_calls :: "'w exec_state \<Rightarrow> 'w exec_state \<Rightarrow> call_event list" where
  "new_calls st st1 = drop (length (calls st)) (calls st1)"

text \<open>The postcondition of the retry loop started at \<open>retryCount = k\<close>.\<close>

definition loop_post ::
  "'w exec_env \<Rightarrow> credentials \<Rightarrow> int \<Rightarrow> nat \<Rightarrow> 'w exec_state \<Rightarrow> nat \<Rightarrow> 'w exec_state \<Rightarrow> bool" where
  "loop_post env creds limit k st k' st' =
     (transport_calls st' \<le> transport_calls st + (if int k < limit then nat (limit - int k) else 1) \<and>
      (\<exists>evs. calls st' = calls st @ evs \<and>
           (\<forall>ev\<in>set evs. k \<le> event_attempt ev \<and> (int k < limit \<longrightarrow> int (event_attempt ev) < limit))) \<and>
      (\<not> success st' \<longrightarrow> int k' = max (int (Suc k)) limit \<and>
           (\<exists>e. lastError st' = Some (take 1000 (maskCredentials env (rawErrorString e) creds)))) \<and>
      (success st' \<longrightarrow> k \<le> k' \<and> (int k < limit \<longrightarrow> int k' < limit)))"

section \<open>The attempts of a run\<close>

text \<open>
  The state in which a call of \<open>executeApiCall\<close> begins attempt \<open>k\<close>: the initial state
  for attempt 0, and for a later attempt the state the source loop has reached once the
  attempts \<open>0 .. k - 1\<close> are over, which is the loop run with the budget \<open>k\<close>. A run with
  a larger budget passes through this state whenever it gets as far as attempt \<open>k\<close>.
\<close>

definition state_before ::
  "'w exec_env \<Rightarrow> ApiConfig \<Rightarrow> json \<Rightarrow> credentials \<Rightarrow> RequestOptions option \<Rightarrow> string \<Rightarrow> 'w
     \<Rightarrow> nat \<Rightarrow> 'w exec_state" where
  "state_before env config payload creds options doc w k =
     (if k = 0 then initial_state config w
      else snd (retry_loop env payload creds options doc (isSelfHealingEnabled options) (int k) 0
                  (initial_state config w)))"

text \<open>Attempt \<open>k\<close> of the call: the \<open>try\<close> block run from that state with the index \<open>k\<close>.\<close>

definition nth_attempt ::
  "'w exec_env \<Rightarrow> ApiConfig \<Rightarrow> json \<Rightarrow> credentials \<Rightarrow> RequestOptions option \<Rightarrow> string \<Rightarrow> 'w
     \<Rightarrow> nat \<Rightarrow> thrown option \<times> 'w exec_state" where
  "nth_attempt env config payload creds options doc w k =
     attempt env payload creds options doc (isSelfHealingEnabled options) k
       (state_before env config payload creds options doc w k)"

text \<open>
  The call makes attempt \<open>k\<close>: attempt 0 is always made (\<open>do ... while\<close>); a later one
  when its index is below the budget and no earlier attempt has succeeded.
\<close>

definition attempt_made ::
  "'w exec_env \<Rightarrow> ApiConfig \<Rightarrow> json \<Rightarrow> credentials \<Rightarrow> RequestOptions option \<Rightarrow> string \<Rightarrow> 'w
     \<Rightarrow> nat \<Rightarrow> bool" where
  "attempt_made env config payload creds options doc w k =
     (k = 0 \<or>
      (int k < retryLimit options \<and>
       \<not> success (state_before env config payload creds options doc w k)))"

section \<open>A concrete masker\<close>

text \<open>Every occurrence of the non-empty string \<open>v\<close> in \<open>s\<close> replaced by \<open>p\<close>, left to right.\<close>

function replaceAll :: "string \<Rightarrow> string \<Rightarrow> string \<Rightarrow> string" where
  "replaceAll v p s =
     (case s of
        [] \<Rightarrow> []
      | c # cs \<Rightarrow>
          if v = [] then s
          else if startsWith s v then p @ replaceAll v p (drop (length v) s)
          else c # replaceAll v p cs)"
  by pat_completeness auto
termination
  by (relation "measure (\<lambda>(v, p, s). length s)") auto

declare replaceAll.simps [simp del]

text \<open>
  Modelled from the spec: \<open>maskCredentials\<close> (imported from \<open>utils/tools.js\<close>) is not
  among the sources. The glossary calls a masked error "an error string with all known
  credential values replaced": every occurrence of every non-empty credential value is
  replaced, here by a placeholder that names the credential's key. The executor and the
  orchestrator take the masker as a parameter; this one instantiates it in the closed
  examples, and where a guarantee is stated for a masker that does mask.
\<close>

fun maskCredentials_spec :: "string \<Rightarrow> credentials \<Rightarrow> string" where
  "maskCredentials_spec msg [] = msg"
| "maskCredentials_spec msg ((k, v) # cs) =
     maskCredentials_spec (if v = [] then msg else replaceAll v (''{masked_'' @ k @ ''}'') msg) cs"



section \<open>The call orchestrator\<close>

text \<open>
  \<open>x?.k\<close> on a value: the property of an object, \<open>undefined\<close> otherwise.
\<close>

fun get_prop :: "json \<Rightarrow> string \<Rightarrow> json" where
  "get_prop (JObj kvs) k = (case map_of kvs k of None \<Rightarrow> JUndefined | Some v \<Rightarrow> v)"
| "get_prop v k = JUndefined"

record ApiInputRequest =
  input_id :: "string option"
  input_endpoint :: ApiConfig

record 'tc TransformOutput =
  transform_data :: json
  transform_config :: "'tc option"

text \<open>
  The run record: what is persisted and returned. The timestamps \<open>startedAt\<close> and
  \<open>completedAt\<close> are left out; the run identifier \<open>crypto.randomUUID()\<close> is a
  parameter. \<open>run_config\<close> is \<open>None\<close> while the variable \<open>endpoint\<close> is still
  unassigned.
\<close>

record RunResult =
  run_id :: string
  run_success :: bool
  run_error :: "string option"
  run_config :: "ApiConfig option"
  run_data :: "json option"

text \<open>
  What the orchestrator sends out: the config written back, the webhook notification
  \<open>notifyWebhook(url, callId, success, data, error)\<close>, the run persisted.
\<close>

datatype effect =
    UpsertApiConfig string ApiConfig string
  | NotifyWebhook string string bool json "string option"
  | CreateRun RunResult string

text \<open>
  The collaborators of \<open>callResolver\<close>: those of the executor, the store's
  \<open>getApiConfig\<close>, \<open>executeTransform\<close>, the object spread
  \<open>{ ...endpoint, ...transformResult.config }\<close> and \<open>notifyWebhook\<close>, whose failure
  matters only where it is awaited. \<open>upsertApiConfig\<close> and \<open>createRun\<close> are not
  awaited and only recorded.
\<close>

record ('w, 'tc) resolver_env =
  executor :: "'w exec_env"
  getApiConfig :: "string \<Rightarrow> string \<Rightarrow> 'w \<Rightarrow> (thrown + ApiConfig) \<times> 'w"
  executeTransform ::
    "bool \<Rightarrow> ApiConfig \<Rightarrow> json \<Rightarrow> RequestOptions option \<Rightarrow> 'w \<Rightarrow> (thrown + 'tc TransformOutput) \<times> 'w"
  spreadConfig :: "ApiConfig \<Rightarrow> 'tc \<Rightarrow> ApiConfig"
  notifyWebhook :: "string \<Rightarrow> string \<Rightarrow> bool \<Rightarrow> json \<Rightarrow> string option \<Rightarrow> 'w \<Rightarrow> thrown option \<times> 'w"

definition readCache :: "RequestOptions option \<Rightarrow> bool" where
  "readCache options =
     (case options of
        None \<Rightarrow> True
      | Some opts \<Rightarrow>
          (case cacheMode opts of
             None \<Rightarrow> True
           | Some m \<Rightarrow> m = CACHE_ENABLED \<or> m = CACHE_READONLY))"

definition writeCache :: "RequestOptions option \<Rightarrow> bool" where
  "writeCache options =
     (case options of
        None \<Rightarrow> False
      | Some opts \<Rightarrow>
          (case cacheMode opts of
             None \<Rightarrow> False
           | Some m \<Rightarrow> m = CACHE_ENABLED \<or> m = CACHE_WRITEONLY))"

text \<open>\<open>options?.webhookUrl\<close> when it is truthy.\<close>

definition configuredWebhook :: "RequestOptions option \<Rightarrow> string option" where
  "configuredWebhook options =
     (case options of
        None \<Rightarrow> None
      | Some opts \<Rightarrow>
          (case webhookUrl opts of
             None \<Rightarrow> None
           | Some url \<Rightarrow> if url = [] then None else Some url))"

definition isZodObject :: "ApiConfig \<Rightarrow> bool" where
  "isZodObject config =
     (get_prop (get_prop (responseSchema config) ''_def'') ''typeName'' = JStr ''ZodObject'')"

definition zod_unsupported :: thrown where
  "zod_unsupported =
     Error (''zod is not supported for response schema. Please use json schema instead. '' @
            ''you can use the zod-to-json-schema package to convert zod to json schema.'')"

text \<open>
  The \<open>try\<close> block. It returns its outcome, the value of the variable \<open>endpoint\<close>
  when it ends, the world and the effects sent out. The executor is called without an
  integration.
\<close>

definition resolver_try ::
  "('w, 'tc) resolver_env \<Rightarrow> ApiInputRequest \<Rightarrow> json \<Rightarrow> credentials \<Rightarrow> RequestOptions option
     \<Rightarrow> string \<Rightarrow> string \<Rightarrow> 'w
     \<Rightarrow> (thrown + RunResult) \<times> ApiConfig option \<times> 'w \<times> effect list" where
  "resolver_try env input payload creds options callId orgId w =
     (case (case input_id input of
              Some i \<Rightarrow> if i \<noteq> [] then getApiConfig env i orgId w else (Inr (input_endpoint input), w)
            | None \<Rightarrow> (Inr (input_endpoint input), w)) of
        (Inl e, w1) \<Rightarrow> (Inl e, None, w1, [])
      | (Inr endpoint0, w1) \<Rightarrow>
          if isZodObject endpoint0 then (Inl zod_unsupported, Some endpoint0, w1, [])
          else
            (case executeApiCall (executor env) endpoint0 payload creds options None w1 of
               (Inl e, st) \<Rightarrow> (Inl e, Some endpoint0, world st, [])
             | (Inr callResult, st) \<Rightarrow>
                 (let endpoint1 = res_endpoint callResult;
                      data = res_data callResult
                  in case executeTransform env (readCache options) endpoint1 data options (world st) of
                       (Inl e, w2) \<Rightarrow> (Inl e, Some endpoint1, w2, [])
                     | (Inr transformResult, w2) \<Rightarrow>
                         (let config = (case transform_config transformResult of
                                          None \<Rightarrow> endpoint1
                                        | Some tc \<Rightarrow> spreadConfig env endpoint1 tc);
                              upsert = (if writeCache options
                                        then [UpsertApiConfig
                                                (case input_id input of
                                                   Some i \<Rightarrow> if i \<noteq> [] then i else configId endpoint1
                                                 | None \<Rightarrow> configId endpoint1)
                                                config orgId]
                                        else []);
                              tdata = transform_data transformResult;
                              notified = (case configuredWebhook options of
                                            None \<Rightarrow> (w2, [])
                                          | Some url \<Rightarrow>
                                              (snd (notifyWebhook env url callId True tdata None w2),
                                               [NotifyWebhook url callId True tdata None]));
                              result = \<lparr>run_id = callId, run_success = True, run_error = None,
                                        run_config = Some config, run_data = None\<rparr>
                          in (Inr (result\<lparr>run_data := Some tdata\<rparr>), Some endpoint1, fst notified,
                              upsert @ snd notified @ [CreateRun result orgId])))))"

text \<open>
  The \<open>catch\<close> block: the masked error goes into the run record, the notification is
  awaited and given \<open>error.message\<close>.
\<close>

definition resolver_catch ::
  "('w, 'tc) resolver_env \<Rightarrow> credentials \<Rightarrow> RequestOptions option \<Rightarrow> string \<Rightarrow> string
     \<Rightarrow> thrown \<Rightarrow> ApiConfig option \<Rightarrow> 'w \<Rightarrow> effect list
     \<Rightarrow> (thrown + RunResult) \<times> 'w \<times> effect list" where
  "resolver_catch env creds options callId orgId error ep w effects =
     (let maskedError = maskCredentials (executor env) (message error) creds;
          notified = (case configuredWebhook options of
                        None \<Rightarrow> (None, w, effects)
                      | Some url \<Rightarrow>
                          (case notifyWebhook env url callId False JUndefined (Some (message error)) w of
                             (r, w1) \<Rightarrow>
                               (r, w1,
                                effects @ [NotifyWebhook url callId False JUndefined (Some (message error))])))
      in case notified of
           (Some e, w1, effects1) \<Rightarrow> (Inl e, w1, effects1)
         | (None, w1, effects1) \<Rightarrow>
             (let result = \<lparr>run_id = callId, run_success = False, run_error = Some maskedError,
                            run_config = ep, run_data = None\<rparr>
              in (Inr result, w1, effects1 @ [CreateRun result orgId])))"

definition callResolver ::
  "('w, 'tc) resolver_env \<Rightarrow> ApiInputRequest \<Rightarrow> json \<Rightarrow> credentials \<Rightarrow> RequestOptions option
     \<Rightarrow> string \<Rightarrow> string \<Rightarrow> 'w \<Rightarrow> (thrown + RunResult) \<times> 'w \<times> effect list" where
  "callResolver env input payload creds options callId orgId w =
     (case resolver_try env input payload creds options callId orgId w of
        (Inr result, ep, w1, effects) \<Rightarrow> (Inr result, w1, effects)
      | (Inl error, ep, w1, effects) \<Rightarrow>
          resolver_catch env creds options callId orgId error ep w1 effects)"


section \<open>The execution strategies\<close>

text \<open>
  Modelled from the spec: \<open>ExecutionStep\<close> and \<open>WorkflowStepResult\<close> are declared
  in \<open>@superglue/client\<close>, not among the sources. A step has its identifier, its config,
  an execution mode, an optional loop selector, an optional bound on the iterations and an
  optional response mapping; the records hold the fields the strategies read and write.
\<close>

record ExecutionStep =
  stepId :: string
  apiConfig :: ApiConfig
  executionMode :: string
  loopSelector :: "string option"
  loopMaxIters :: "int option"
  responseMapping :: "string option"

text \<open>
  The \<open>error\<close> of a result is a string, except where the Loop Strategy stores the
  caught value itself (\<open>error.message || error\<close> with an empty message).
\<close>

datatype error_value = ErrorText string | ErrorObject thrown

record WorkflowStepResult =
  result_stepId :: string
  result_success :: bool
  result_config :: ApiConfig
  result_rawData :: "json option"
  result_transformedData :: "json option"
  result_error :: "error_value option"

record TransformValidation =
  validation_success :: bool
  validation_data :: json

text \<open>
  The collaborators of the strategies. Their \<open>executeApiCall\<close> is the one of
  \<open>utils/api.js\<close>, called with one object argument; here it takes the endpoint, the
  payload, the credentials and the options (the metadata and the integration manager are
  passed through unchanged). \<open>generateTransformCode\<close> returns the \<open>mappingCode\<close> of
  its result, if any.
\<close>

record 'w strategy_env =
  executeApiCall_api ::
    "ApiConfig \<Rightarrow> json \<Rightarrow> credentials \<Rightarrow> RequestOptions \<Rightarrow> 'w \<Rightarrow> (thrown + ExecResult) \<times> 'w"
  applyJsonata :: "json \<Rightarrow> string option \<Rightarrow> 'w \<Rightarrow> (thrown + json) \<times> 'w"
  transformAndValidateSchema :: "json \<Rightarrow> string \<Rightarrow> 'w \<Rightarrow> (thrown + TransformValidation) \<times> 'w"
  generateTransformCode :: "json \<Rightarrow> json \<Rightarrow> string \<Rightarrow> 'w \<Rightarrow> (thrown + string option) \<times> 'w"
  flattenObject :: "json \<Rightarrow> string \<Rightarrow> (string \<times> json) list"
  stringify :: "json \<Rightarrow> string"
  DEFAULT_LOOP_MAX_ITERS :: int

text \<open>The invocations of the effectful collaborators, in order, with their arguments.\<close>

datatype strategy_event =
    Executed ApiConfig json RequestOptions
  | Mapped json "string option"
  | Extracted json string
  | Synthesized string

text \<open>
  What an execution can change: the world, the caller's step object (passed by
  reference), and the locals \<open>successfulConfig\<close> and \<open>stepResults\<close> of the loop.
\<close>

record 'w strategy_state =
  st_world :: 'w
  st_step :: ExecutionStep
  st_events :: "strategy_event list"
  successfulConfig :: "ApiConfig option"
  stepResults :: "WorkflowStepResult list"

definition enter :: "ExecutionStep \<Rightarrow> 'w \<Rightarrow> 'w strategy_state" where
  "enter step w =
     \<lparr>st_world = w, st_step = step, st_events = [], successfulConfig = None, stepResults = []\<rparr>"

definition initial_result :: "ExecutionStep \<Rightarrow> WorkflowStepResult" where
  "initial_result step =
     \<lparr>result_stepId = stepId step, result_success = False, result_config = apiConfig step,
      result_rawData = None, result_transformedData = None, result_error = None\<rparr>"

text \<open>\<open>try { body } catch (error) { handler }\<close> over a state.\<close>

definition try_catch ::
  "(thrown + 'a) \<times> 's \<Rightarrow> (thrown \<Rightarrow> 's \<Rightarrow> (thrown + 'a) \<times> 's) \<Rightarrow> (thrown + 'a) \<times> 's" where
  "try_catch body handler =
     (case body of
        (Inl e, s) \<Rightarrow> handler e s
      | (Inr v, s) \<Rightarrow> (Inr v, s))"

subsection \<open>Calls of the collaborators\<close>

definition call_executor ::
  "'w strategy_env \<Rightarrow> ApiConfig \<Rightarrow> json \<Rightarrow> credentials \<Rightarrow> RequestOptions \<Rightarrow> 'w strategy_state
     \<Rightarrow> (thrown + ExecResult) \<times> 'w strategy_state" where
  "call_executor env config payload creds options st =
     (case executeApiCall_api env config payload creds options (st_world st) of
        (r, w) \<Rightarrow> (r, st\<lparr>st_world := w, st_events := st_events st @ [Executed config payload options]\<rparr>))"

definition call_jsonata ::
  "'w strategy_env \<Rightarrow> json \<Rightarrow> string option \<Rightarrow> 'w strategy_state \<Rightarrow> (thrown + json) \<times> 'w strategy_state" where
  "call_jsonata env d mapping st =
     (case applyJsonata env d mapping (st_world st) of
        (r, w) \<Rightarrow> (r, st\<lparr>st_world := w, st_events := st_events st @ [Mapped d mapping]\<rparr>))"

definition call_extract ::
  "'w strategy_env \<Rightarrow> json \<Rightarrow> string \<Rightarrow> 'w strategy_state
     \<Rightarrow> (thrown + TransformValidation) \<times> 'w strategy_state" where
  "call_extract env payload selector st =
     (case transformAndValidateSchema env payload selector (st_world st) of
        (r, w) \<Rightarrow> (r, st\<lparr>st_world := w, st_events := st_events st @ [Extracted payload selector]\<rparr>))"

definition arraySchema :: json where
  "arraySchema =
     JObj [(''type'', JStr ''array''), (''description'', JStr ''Array of items to iterate over'')]"

definition call_generate ::
  "'w strategy_env \<Rightarrow> json \<Rightarrow> string \<Rightarrow> 'w strategy_state
     \<Rightarrow> (thrown + string option) \<times> 'w strategy_state" where
  "call_generate env payload instr st =
     (case generateTransformCode env arraySchema payload instr (st_world st) of
        (r, w) \<Rightarrow> (r, st\<lparr>st_world := w, st_events := st_events st @ [Synthesized instr]\<rparr>))"

subsection \<open>Strategy selection and the Direct Strategy\<close>

datatype strategy = DirectStrategy | LoopStrategy

definition selectStrategy :: "ExecutionStep \<Rightarrow> strategy" where
  "selectStrategy step = (if executionMode step = ''LOOP'' then LoopStrategy else DirectStrategy)"

definition direct_try ::
  "'w strategy_env \<Rightarrow> ExecutionStep \<Rightarrow> json \<Rightarrow> credentials \<Rightarrow> RequestOptions \<Rightarrow> 'w strategy_state
     \<Rightarrow> (thrown + WorkflowStepResult) \<times> 'w strategy_state" where
  "direct_try env step payload creds options st =
     (case call_executor env (apiConfig step) payload creds options st of
        (Inl e, st1) \<Rightarrow> (Inl e, st1)
      | (Inr apiResponse, st1) \<Rightarrow>
          (case call_jsonata env (res_data apiResponse) (responseMapping step) st1 of
             (Inl e, st2) \<Rightarrow> (Inl e, st2)
           | (Inr transformedData, st2) \<Rightarrow>
               (Inr ((initial_result step)
                       \<lparr>result_rawData := Some (res_data apiResponse),
                        result_transformedData := Some transformedData,
                        result_success := True,
                        result_config := res_endpoint apiResponse\<rparr>),
                st2)))"

definition direct_error :: "ExecutionStep \<Rightarrow> thrown \<Rightarrow> string" where
  "direct_error step error =
     ''Error in direct execution for step '' @ stepId step @ '': '' @ String_thrown error"

definition direct_catch ::
  "ExecutionStep \<Rightarrow> thrown \<Rightarrow> 'w strategy_state \<Rightarrow> (thrown + WorkflowStepResult) \<times> 'w strategy_state" where
  "direct_catch step error st =
     (Inr ((initial_result step)
             \<lparr>result_error := Some (ErrorText (direct_error step error)),
              result_success := False\<rparr>),
      st)"

definition directStrategy_execute ::
  "'w strategy_env \<Rightarrow> ExecutionStep \<Rightarrow> json \<Rightarrow> credentials \<Rightarrow> RequestOptions \<Rightarrow> 'w
     \<Rightarrow> (thrown + WorkflowStepResult) \<times> 'w strategy_state" where
  "directStrategy_execute env step payload creds options w =
     try_catch (direct_try env step payload creds options (enter step w)) (direct_catch step)"

subsection \<open>Objects, arrays and their renderings\<close>

fun indexed_from :: "nat \<Rightarrow> json list \<Rightarrow> (string \<times> json) list" where
  "indexed_from i [] = []"
| "indexed_from i (x # xs) = (string_of_nat i, x) # indexed_from (Suc i) xs"

definition null_to_object :: thrown where
  "null_to_object = TypeError ''Cannot convert undefined or null to object''"

text \<open>The own enumerable properties, as \<open>Object.keys\<close> with \<open>payload[key]\<close> reads them.\<close>

fun own_entries :: "json \<Rightarrow> thrown + (string \<times> json) list" where
  "own_entries (JObj kvs) = Inr kvs"
| "own_entries (JArr xs) = Inr (indexed_from 0 xs)"
| "own_entries (JStr s) = Inr (indexed_from 0 (map (\<lambda>c. JStr [c]) s))"
| "own_entries JNull = Inl null_to_object"
| "own_entries JUndefined = Inl null_to_object"
| "own_entries (JBool b) = Inr []"
| "own_entries (JNum n) = Inr []"

text \<open>Object spread \<open>...v\<close>: nothing for \<open>null\<close> and \<open>undefined\<close>.\<close>

definition spread :: "json \<Rightarrow> (string \<times> json) list" where
  "spread v = (case own_entries v of Inl e \<Rightarrow> [] | Inr kvs \<Rightarrow> kvs)"

fun set_prop :: "string \<Rightarrow> json \<Rightarrow> (string \<times> json) list \<Rightarrow> (string \<times> json) list" where
  "set_prop k v [] = [(k, v)]"
| "set_prop k v ((k', v') # kvs) =
     (if k = k' then (k, v) # kvs else (k', v') # set_prop k v kvs)"

text \<open>
  Properties written one after the other into an object; a key written again keeps its
  place. (The engine's reordering of integer-like keys is not modelled.)
\<close>

definition assign :: "(string \<times> json) list \<Rightarrow> (string \<times> json) list \<Rightarrow> (string \<times> json) list" where
  "assign target source = fold (\<lambda>(k, v). set_prop k v) source target"

fun typeof :: "json \<Rightarrow> string" where
  "typeof JUndefined = ''undefined''"
| "typeof JNull = ''object''"
| "typeof (JBool b) = ''boolean''"
| "typeof (JNum n) = ''number''"
| "typeof (JStr s) = ''string''"
| "typeof (JArr xs) = ''object''"
| "typeof (JObj kvs) = ''object''"

fun isArray :: "json \<Rightarrow> bool" where
  "isArray (JArr xs) = True"
| "isArray v = False"

fun join :: "string \<Rightarrow> string list \<Rightarrow> string" where
  "join sep [] = []"
| "join sep [x] = x"
| "join sep (x # y # ys) = x @ sep @ join sep (y # ys)"

text \<open>\<open>xs.slice(0, n)\<close>: a negative \<open>n\<close> counts from the end.\<close>

definition slice0 :: "'a list \<Rightarrow> int \<Rightarrow> 'a list" where
  "slice0 xs n = (if n < 0 then take (length xs - nat (- n)) xs else take (nat n) xs)"

subsection \<open>The Loop Strategy\<close>

text \<open>\<open>step.loopSelector\<close> when it is truthy.\<close>

definition selector_set :: "ExecutionStep \<Rightarrow> bool" where
  "selector_set step = (case loopSelector step of None \<Rightarrow> False | Some s \<Rightarrow> s \<noteq> [])"

definition selector_of :: "ExecutionStep \<Rightarrow> string" where
  "selector_of step = (case loopSelector step of None \<Rightarrow> [] | Some s \<Rightarrow> s)"

definition selector_required :: thrown where
  "selector_required = Error ''loopSelector is required for LOOP execution mode''"

definition resolve_selector :: "json \<Rightarrow> 'w strategy_state \<Rightarrow> thrown option \<times> 'w strategy_state" where
  "resolve_selector payload st =
     (if \<not> selector_set (st_step st) then
        (if isArray payload
         then (None, st\<lparr>st_step := (st_step st)\<lparr>loopSelector := Some ''$''\<rparr>\<rparr>)
         else (Some selector_required, st))
      else (None, st))"

text \<open>The items of an extraction: none unless it succeeded with an array.\<close>

definition items_of :: "TransformValidation \<Rightarrow> json list" where
  "items_of r =
     (if validation_success r
      then (case validation_data r of JArr xs \<Rightarrow> xs | _ \<Rightarrow> [])
      else [])"

definition extract_items ::
  "'w strategy_env \<Rightarrow> json \<Rightarrow> 'w strategy_state \<Rightarrow> (thrown + json list) \<times> 'w strategy_state" where
  "extract_items env payload st =
     (case call_extract env payload (selector_of (st_step st)) st of
        (Inl e, st1) \<Rightarrow> (Inl e, st1)
      | (Inr r, st1) \<Rightarrow> (Inr (items_of r), st1))"

definition describe_entry :: "string \<times> json \<Rightarrow> string" where
  "describe_entry kv =
     ''- '' @ fst kv @ '': '' @
     (case snd kv of
        JArr xs \<Rightarrow> ''array['' @ string_of_nat (length xs) @ '']''
      | v \<Rightarrow> typeof v)"

definition selector_instruction :: "ExecutionStep \<Rightarrow> (string \<times> json) list \<Rightarrow> string" where
  "selector_instruction step entries =
     ''Create a JavaScript function that extracts the array of items to loop over for step: '' @
     stepId step @ ''. '' @ [CHR 0x0A] @
     ''          '' @ [CHR 0x0A] @
     ''Step instruction: '' @ instruction (apiConfig step) @ [CHR 0x0A] @
     [CHR 0x0A] @
     ''The function should:'' @ [CHR 0x0A] @
     ''1. Extract an array of ACTUAL DATA ITEMS (not metadata or property definitions)'' @ [CHR 0x0A] @
     ''2. Apply any filtering based on the step'' @ [CHR 0x27] @ ''s instruction'' @ [CHR 0x0A] @
     [CHR 0x0A] @
     ''Available data in sourceData:'' @ [CHR 0x0A] @
     join [CHR 0x0A] (map describe_entry entries) @ [CHR 0x0A] @
     [CHR 0x0A] @
     ''The function should return an array of items that this step will iterate over.''"

text \<open>
  The fallback when no item was found: one synthesis and, if it returns mapping code,
  one more extraction with the step's selector replaced.
\<close>

definition regenerate_items ::
  "'w strategy_env \<Rightarrow> json \<Rightarrow> 'w strategy_state \<Rightarrow> (thrown + json list) \<times> 'w strategy_state" where
  "regenerate_items env payload st =
     (case own_entries payload of
        Inl e \<Rightarrow> (Inl e, st)
      | Inr entries \<Rightarrow>
          (case call_generate env payload (selector_instruction (st_step st) entries) st of
             (Inl e, st1) \<Rightarrow> (Inl e, st1)
           | (Inr mappingCode, st1) \<Rightarrow>
               (case mappingCode of
                  None \<Rightarrow> (Inr [], st1)
                | Some code \<Rightarrow>
                    if code = [] then (Inr [], st1)
                    else extract_items env payload
                           (st1\<lparr>st_step := (st_step st1)\<lparr>loopSelector := Some code\<rparr>\<rparr>))))"

definition max_iters :: "'w strategy_env \<Rightarrow> ExecutionStep \<Rightarrow> int" where
  "max_iters env step =
     (case loopMaxIters step of
        None \<Rightarrow> DEFAULT_LOOP_MAX_ITERS env
      | Some n \<Rightarrow> if n = 0 then DEFAULT_LOOP_MAX_ITERS env else n)"

definition loop_payload :: "'w strategy_env \<Rightarrow> json \<Rightarrow> json \<Rightarrow> json" where
  "loop_payload env payload currentItem =
     JObj (assign (assign (assign [] (spread payload)) (flattenObject env currentItem ''currentItem''))
             [(''currentItem'', currentItem)])"

definition raw_data :: "json \<Rightarrow> json \<Rightarrow> json" where
  "raw_data currentItem d =
     JObj (assign [(''currentItem'', currentItem)]
             (if typeof d = ''object'' then spread d else [(''data'', d)]))"

text \<open>\<open>successfulConfig || step.apiConfig\<close> and \<open>loopItems[i] || ""\<close>.\<close>

definition current_config :: "'w strategy_state \<Rightarrow> ApiConfig" where
  "current_config st = (case successfulConfig st of None \<Rightarrow> apiConfig (st_step st) | Some c \<Rightarrow> c)"

definition current_item :: "json \<Rightarrow> json" where
  "current_item item = (if truthy item then item else JStr [])"

text \<open>The inner \<open>try\<close> block of one iteration.\<close>

definition iteration_try ::
  "'w strategy_env \<Rightarrow> json \<Rightarrow> credentials \<Rightarrow> RequestOptions \<Rightarrow> json \<Rightarrow> 'w strategy_state
     \<Rightarrow> thrown option \<times> 'w strategy_state" where
  "iteration_try env payload creds options currentItem st =
     (case call_executor env (current_config st) (loop_payload env payload currentItem) creds
             (options\<lparr>testMode := Some False\<rparr>) st of
        (Inl e, st1) \<Rightarrow> (Some e, st1)
      | (Inr apiResponse, st1) \<Rightarrow>
          (let st2 = st1\<lparr>successfulConfig := Some (res_endpoint apiResponse)\<rparr>;
               rawData = raw_data currentItem (res_data apiResponse)
           in case call_jsonata env rawData (responseMapping (st_step st2)) st2 of
                (Inl e, st3) \<Rightarrow> (Some e, st3)
              | (Inr transformedData, st3) \<Rightarrow>
                  (None,
                   st3\<lparr>stepResults := stepResults st3 @
                          [\<lparr>result_stepId = stepId (st_step st3), result_success = True,
                            result_config = res_endpoint apiResponse,
                            result_rawData = Some rawData,
                            result_transformedData = Some transformedData,
                            result_error = None\<rparr>],
                        st_step := (st_step st3)\<lparr>apiConfig := res_endpoint apiResponse\<rparr>\<rparr>)))"

definition item_error :: "'w strategy_env \<Rightarrow> nat \<Rightarrow> nat \<Rightarrow> json \<Rightarrow> thrown \<Rightarrow> string" where
  "item_error env i n currentItem callError =
     ''Error processing item '' @ string_of_nat (i + 1) @ ''/'' @ string_of_nat n @ '' '' @
     [CHR 0x27] @ take 50 (stringify env currentItem) @ ''...'' @ [CHR 0x27] @ '': '' @
     String_thrown callError"

text \<open>
  The \<open>for\<close> loop from index \<open>i\<close> over the items not yet visited; \<open>n\<close> is
  \<open>loopItems.length\<close>. A failing iteration rethrows and ends the loop.
\<close>

fun iterate ::
  "'w strategy_env \<Rightarrow> json \<Rightarrow> credentials \<Rightarrow> RequestOptions \<Rightarrow> nat \<Rightarrow> nat \<Rightarrow> json list
     \<Rightarrow> 'w strategy_state \<Rightarrow> thrown option \<times> 'w strategy_state" where
  "iterate env payload creds options n i [] st = (None, st)"
| "iterate env payload creds options n i (item # rest) st =
     (let currentItem = current_item item in
      case iteration_try env payload creds options currentItem st of
        (Some callError, st1) \<Rightarrow> (Some (Error (item_error env i n currentItem callError)), st1)
      | (None, st1) \<Rightarrow> iterate env payload creds options n (Suc i) rest st1)"

definition has_error :: "WorkflowStepResult \<Rightarrow> bool" where
  "has_error r =
     (case result_error r of
        None \<Rightarrow> False
      | Some (ErrorText s) \<Rightarrow> s \<noteq> []
      | Some (ErrorObject e) \<Rightarrow> True)"

definition data_or_undefined :: "json option \<Rightarrow> json" where
  "data_or_undefined d = (case d of None \<Rightarrow> JUndefined | Some v \<Rightarrow> v)"

definition aggregate :: "WorkflowStepResult \<Rightarrow> 'w strategy_state \<Rightarrow> WorkflowStepResult" where
  "aggregate result st =
     result\<lparr>result_config := apiConfig (st_step st),
            result_rawData := Some (JArr (map (\<lambda>r. data_or_undefined (result_rawData r)) (stepResults st))),
            result_transformedData :=
              Some (JArr (map (\<lambda>r. data_or_undefined (result_transformedData r)) (stepResults st))),
            result_success := list_all result_success (stepResults st),
            result_error :=
              Some (ErrorText (join [CHR 0x0A]
                     (map (\<lambda>r. ''[object Object]'') (filter has_error (stepResults st)))))\<rparr>"

text \<open>
  The outer \<open>try\<close> block, first up to the items to loop over: selector resolution,
  extraction, the fallback when there is no item, and the bound on the iterations.
\<close>

definition loop_items ::
  "'w strategy_env \<Rightarrow> json \<Rightarrow> 'w strategy_state \<Rightarrow> (thrown + json list) \<times> 'w strategy_state" where
  "loop_items env payload st =
     (case resolve_selector payload st of
        (Some e, st1) \<Rightarrow> (Inl e, st1)
      | (None, st1) \<Rightarrow>
          (case extract_items env payload st1 of
             (Inl e, st2) \<Rightarrow> (Inl e, st2)
           | (Inr items0, st2) \<Rightarrow>
               (case (if items0 = [] then regenerate_items env payload st2 else (Inr items0, st2)) of
                  (Inl e, st3) \<Rightarrow> (Inl e, st3)
                | (Inr items1, st3) \<Rightarrow>
                    (Inr (slice0 items1 (max_iters env (st_step st3))), st3))))"

definition loop_try ::
  "'w strategy_env \<Rightarrow> ExecutionStep \<Rightarrow> json \<Rightarrow> credentials \<Rightarrow> RequestOptions \<Rightarrow> 'w strategy_state
     \<Rightarrow> (thrown + WorkflowStepResult) \<times> 'w strategy_state" where
  "loop_try env step payload creds options st =
     (case loop_items env payload st of
        (Inl e, st3) \<Rightarrow> (Inl e, st3)
      | (Inr loopItems, st3) \<Rightarrow>
          (case iterate env payload creds options (length loopItems) 0 loopItems st3 of
             (Some e, st4) \<Rightarrow> (Inl e, st4)
           | (None, st4) \<Rightarrow> (Inr (aggregate (initial_result step) st4), st4)))"

definition caught_error :: "thrown \<Rightarrow> error_value" where
  "caught_error error = (if message error \<noteq> [] then ErrorText (message error) else ErrorObject error)"

definition loop_catch ::
  "ExecutionStep \<Rightarrow> thrown \<Rightarrow> 'w strategy_state \<Rightarrow> (thrown + WorkflowStepResult) \<times> 'w strategy_state" where
  "loop_catch step error st =
     (Inr ((initial_result step)
             \<lparr>result_config := apiConfig (st_step st),
              result_success := False,
              result_error := Some (caught_error error)\<rparr>),
      st)"

definition loopStrategy_execute ::
  "'w strategy_env \<Rightarrow> ExecutionStep \<Rightarrow> json \<Rightarrow> credentials \<Rightarrow> RequestOptions \<Rightarrow> 'w
     \<Rightarrow> (thrown + WorkflowStepResult) \<times> 'w strategy_state" where
  "loopStrategy_execute env step payload creds options w =
     try_catch (loop_try env step payload creds options (enter step w)) (loop_catch step)"

definition execute ::
  "strategy \<Rightarrow> 'w strategy_env \<Rightarrow> ExecutionStep \<Rightarrow> json \<Rightarrow> credentials \<Rightarrow> RequestOptions \<Rightarrow> 'w
     \<Rightarrow> (thrown + WorkflowStepResult) \<times> 'w strategy_state" where
  "execute s env step payload creds options w =
     (case s of
        DirectStrategy \<Rightarrow> directStrategy_execute env step payload creds options w
      | LoopStrategy \<Rightarrow> loopStrategy_execute env step payload creds options w)"


section \<open>Stating properties of an execution\<close>

text \<open>Counting the recorded invocations by collaborator.\<close>

fun is_Executed :: "strategy_event \<Rightarrow> bool" where
  "is_Executed (Executed c p opts) = True"
| "is_Executed ev = False"

fun is_Extracted :: "strategy_event \<Rightarrow> bool" where
  "is_Extracted (Extracted p s) = True"
| "is_Extracted ev = False"

fun is_Synthesized :: "strategy_event \<Rightarrow> bool" where
  "is_Synthesized (Synthesized i) = True"
| "is_Synthesized ev = False"

definition executions :: "'w strategy_state \<Rightarrow> nat" where
  "executions st = length (filter is_Executed (st_events st))"

definition extractions :: "'w strategy_state \<Rightarrow> nat" where
  "extractions st = length (filter is_Extracted (st_events st))"

definition syntheses :: "'w strategy_state \<Rightarrow> nat" where
  "syntheses st = length (filter is_Synthesized (st_events st))"

text \<open>The fields of a step other than its config and its selector.\<close>

definition frame_eq :: "ExecutionStep \<Rightarrow> ExecutionStep \<Rightarrow> bool" where
  "frame_eq a b =
     (stepId a = stepId b \<and> executionMode a = executionMode b \<and>
      loopMaxIters a = loopMaxIters b \<and> responseMapping a = responseMapping b)"

text \<open>What the phases before the iterations leave as it is.\<close>

definition keeps_loop_vars :: "'w strategy_state \<Rightarrow> 'w strategy_state \<Rightarrow> bool" where
  "keeps_loop_vars st st1 =
     (successfulConfig st1 = successfulConfig st \<and> stepResults st1 = stepResults st \<and>
      apiConfig (st_step st1) = apiConfig (st_step st) \<and> frame_eq (st_step st1) (st_step st) \<and>
      executions st1 = executions st)"

text \<open>The step's config is the supplied one, or that of the latest completed iteration.\<close>

definition config_of_record :: "ExecutionStep \<Rightarrow> 'w strategy_state \<Rightarrow> bool" where
  "config_of_record step st =
     (apiConfig (st_step st) =
        (if stepResults st = [] then apiConfig step else result_config (last (stepResults st))))"


section \<open>Concrete collaborators for the closed examples\<close>

text \<open>
  The world is a counter of collaborator invocations. The transport caller reaches only
  the host \<open>api.example.com\<close>; elsewhere it fails with an error that quotes the
  credential \<open>apiKey\<close>. The synthesizer proposes the host named in the instruction.
\<close>

definition demo_env :: "nat exec_env" where
  "demo_env =
     \<lparr>generateApiConfig = (\<lambda>c doc p cr k ms w. (Inr (c\<lparr>urlHost := instruction c\<rparr>, ms), Suc w)),
      callEndpoint = (\<lambda>c p cr opts w.
         (if urlHost c = ''api.example.com'' then Inr (JStr ''ok'')
          else Inl (Error (''401 for key '' @ (case map_of cr ''apiKey'' of None \<Rightarrow> ''none'' | Some v \<Rightarrow> v))),
          Suc w)),
      evaluateResponse = (\<lambda>d s i w. (Inr (True, []), Suc w)),
      maskCredentials = maskCredentials_spec,
      JSON_stringify = (\<lambda>j. ''{}''),
      PROMPT_MAPPING = ''guide''\<rparr>"

definition demo_config :: "string \<Rightarrow> string \<Rightarrow> ApiConfig" where
  "demo_config host instr = \<lparr>configId = ''c1'', urlHost = host, instruction = instr, responseSchema = JNull\<rparr>"

definition demo_options :: "SelfHealingMode option \<Rightarrow> int option \<Rightarrow> RequestOptions" where
  "demo_options sh r = \<lparr>selfHealing = sh, cacheMode = None, retries = r, webhookUrl = None, testMode = None\<rparr>"

text \<open>
  For the orchestrator: the store has no config, the transform rejects a config without
  a response schema with an error that quotes the key, the webhook accepts every
  notification.
\<close>

definition demo_resolver_env :: "(nat, unit) resolver_env" where
  "demo_resolver_env =
     \<lparr>executor = demo_env,
      getApiConfig = (\<lambda>i org w. (Inl (Error (''no config '' @ i)), Suc w)),
      executeTransform = (\<lambda>fromCache c d opts w.
         (if responseSchema c = JNull then Inl (Error ''response echoes key SECRET without a schema'')
          else Inr \<lparr>transform_data = d, transform_config = None\<rparr>, Suc w)),
      spreadConfig = (\<lambda>c tc. c),
      notifyWebhook = (\<lambda>url callId ok d err w. (None, Suc w))\<rparr>"

definition demo_input :: ApiInputRequest where
  "demo_input = \<lparr>input_id = None, input_endpoint = demo_config ''api.example.com'' ''list users''\<rparr>"

definition demo_webhook_options :: RequestOptions where
  "demo_webhook_options = (demo_options None None)\<lparr>webhookUrl := Some ''https://hook.example.com''\<rparr>"

text \<open>
  For the strategies: the executor fails on the item \<open>bad\<close> and otherwise echoes the
  item and returns the config healed to \<open>api.example.com\<close>; the mapping is the
  identity; a selector names a property of the payload (\<open>$\<close> the payload itself); the
  synthesizer proposes the selector found under the payload's \<open>hint\<close>, if any.
\<close>

definition demo_strategy_env :: "nat strategy_env" where
  "demo_strategy_env =
     \<lparr>executeApiCall_api = (\<lambda>c p cr opts w.
         (if get_prop p ''currentItem'' = JStr ''bad'' then Inl (Error ''401 Unauthorized'')
          else Inr \<lparr>res_data = JObj [(''echo'', get_prop p ''currentItem'')],
                    res_endpoint = c\<lparr>urlHost := ''api.example.com''\<rparr>\<rparr>,
          Suc w)),
      applyJsonata = (\<lambda>d m w. (Inr d, Suc w)),
      transformAndValidateSchema = (\<lambda>p sel w.
         (Inr \<lparr>validation_success = True,
               validation_data = (if sel = ''$'' then p else get_prop p sel)\<rparr>, Suc w)),
      generateTransformCode = (\<lambda>schema p instr w.
         (Inr (case get_prop p ''hint'' of JStr s \<Rightarrow> Some s | _ \<Rightarrow> None), Suc w)),
      flattenObject = (\<lambda>v prefix. []),
      stringify = (\<lambda>v. case v of JStr s \<Rightarrow> [CHR 0x22] @ s @ [CHR 0x22] | _ \<Rightarrow> ''{}''),
      DEFAULT_LOOP_MAX_ITERS = 100\<rparr>"

definition demo_step :: "string \<Rightarrow> string option \<Rightarrow> ExecutionStep" where
  "demo_step mode sel =
     \<lparr>stepId = ''step1'', apiConfig = demo_config ''down'' ''list users'', executionMode = mode,
      loopSelector = sel, loopMaxIters = None, responseMapping = None\<rparr>"

definition bad_item_payload :: json where
  "bad_item_payload = JObj [(''items'', JArr [JStr ''a'', JStr ''bad'', JStr ''c''])]"

definition empty_items_payload :: json where
  "empty_items_payload = JObj [(''items'', JArr [])]"

definition hinted_payload :: json where
  "hinted_payload = JObj [(''items'', JArr []), (''hint'', JStr ''other'')]"


section \<open>Properties of the call executor\<close>

subsection \<open>Steps of one attempt\<close>

lemma regenerate_calls:
  "regenerate env payload creds doc sh k st = (r, st1) \<Longrightarrow>
     transport_calls st1 = transport_calls st \<and> success st1 = success st \<and> lastError st1 = lastError st
     \<and> (\<exists>evs. calls st1 = calls st @ evs \<and> (\<forall>ev\<in>set evs. event_attempt ev = k))"
  by (auto simp: regenerate_def transport_calls_def is_Called_def Let_def split: if_splits prod.splits sum.splits)

lemma transport_calls_step:
  "transport env payload creds options k st = (r, st1) \<Longrightarrow>
     transport_calls st1 = Suc (transport_calls st) \<and> success st1 = success st \<and> lastError st1 = lastError st
     \<and> (\<exists>evs. calls st1 = calls st @ evs \<and> (\<forall>ev\<in>set evs. event_attempt ev = k))"
  by (auto simp: transport_def transport_calls_def is_Called_def Let_def split: if_splits prod.splits sum.splits)

lemma validate_calls:
  "validate env sh k st = (r, st1) \<Longrightarrow>
     transport_calls st1 = transport_calls st \<and> (r = None \<longrightarrow> success st1) \<and>
     (r \<noteq> None \<longrightarrow> success st1 \<longrightarrow> success st) \<and> lastError st1 = lastError st
     \<and> (\<exists>evs. calls st1 = calls st @ evs \<and> (\<forall>ev\<in>set evs. event_attempt ev = k))"
  by (auto simp: validate_def transport_calls_def is_Called_def Let_def split: if_splits prod.splits sum.splits)

lemma attempt_effect:
  assumes "attempt env payload creds options doc sh k st = (r, st1)"
  shows "transport_calls st1 \<le> Suc (transport_calls st)"
    and "r = None \<Longrightarrow> success st1"
    and "r \<noteq> None \<Longrightarrow> success st1 \<Longrightarrow> success st"
    and "lastError st1 = lastError st"
    and "\<exists>evs. calls st1 = calls st @ evs \<and> (\<forall>ev\<in>set evs. event_attempt ev = k)"
  using assms
  unfolding attempt_def
  by (auto split: prod.splits option.splits dest!: regenerate_calls transport_calls_step validate_calls)



lemma on_error_frame:
  "calls (on_error env creds k e st) = calls st"
  "success (on_error env creds k e st) = success st"
  "transport_calls (on_error env creds k e st) = transport_calls st"
  "lastError (on_error env creds k e st) = Some (take 1000 (maskCredentials env (rawErrorString e) creds))"
  by (simp_all add: on_error_def Let_def transport_calls_def)

lemma retry_loop_bounds:
  "retry_loop env payload creds options doc sh limit k st = (k', st') \<Longrightarrow> \<not> success st \<Longrightarrow>
     loop_post env creds limit k st k' st'"
proof (induction env payload creds options doc sh limit k st arbitrary: k' st'
        rule: retry_loop.induct)
  case (1 env payload creds options doc sh limit k st)
  obtain r st1 where a: "attempt env payload creds options doc sh k st = (r, st1)"
    by (cases "attempt env payload creds options doc sh k st")
  note eff = attempt_effect [OF a]
  show ?case
  proof (cases r)
    case None
    with a "1.prems" have "k' = k" "st' = st1"
      by (simp_all add: retry_loop.simps [of env payload creds options doc sh limit k st])
    with eff None show ?thesis
      unfolding loop_post_def by auto
  next
    case (Some e)
    define st2 where "st2 = on_error env creds k e st1"
    have ns1: "\<not> success st1" using eff(3) Some "1.prems"(2) by auto
    have ns2: "\<not> success st2" using ns1 by (simp add: st2_def on_error_frame)
    show ?thesis
    proof (cases "int (Suc k) < limit")
      case True
      have rec: "retry_loop env payload creds options doc sh limit (Suc k) st2 = (k', st')"
        using a Some True "1.prems"(1)
        by (simp add: retry_loop.simps [of env payload creds options doc sh limit k st] st2_def Let_def)
      have ih: "loop_post env creds limit (Suc k) st2 k' st'"
        using "1.IH" [OF a [symmetric] Some st2_def True rec ns2] .
      from eff(5) obtain evs1 where e1: "calls st1 = calls st @ evs1"
        "\<forall>ev\<in>set evs1. event_attempt ev = k" by blast
      from ih obtain evs2 where e2: "calls st' = calls st2 @ evs2"
        "\<forall>ev\<in>set evs2. Suc k \<le> event_attempt ev \<and> int (event_attempt ev) < limit"
        using True unfolding loop_post_def by auto
      have c: "calls st' = calls st @ (evs1 @ evs2)"
        using e1 e2 by (simp add: st2_def on_error_frame)
      have ev: "\<forall>ev\<in>set (evs1 @ evs2). k \<le> event_attempt ev \<and> (int k < limit \<longrightarrow> int (event_attempt ev) < limit)"
        using e1(2) e2(2) True by auto
      have t: "transport_calls st' \<le> transport_calls st + nat (limit - int k)"
        using ih eff(1) True unfolding loop_post_def
        by (simp add: st2_def on_error_frame) linarith
      show ?thesis
        unfolding loop_post_def
        using c ev t ih True unfolding loop_post_def by auto
    next
      case False
      have fin: "k' = Suc k" "st' = st2"
        using a Some False "1.prems"(1)
        by (simp_all add: retry_loop.simps [of env payload creds options doc sh limit k st] st2_def Let_def)
      from eff(5) obtain evs1 where e1: "calls st1 = calls st @ evs1"
        "\<forall>ev\<in>set evs1. event_attempt ev = k" by blast
      have c: "calls st' = calls st @ evs1" using e1 fin by (simp add: st2_def on_error_frame)
      have ev: "\<forall>ev\<in>set evs1. k \<le> event_attempt ev \<and> (int k < limit \<longrightarrow> int (event_attempt ev) < limit)"
        using e1(2) by auto
      have t: "transport_calls st' \<le> transport_calls st + (if int k < limit then nat (limit - int k) else 1)"
        using eff(1) fin by (auto simp: st2_def on_error_frame)
      have le: "lastError st' = Some (take 1000 (maskCredentials env (rawErrorString e) creds))"
        using fin by (simp add: st2_def on_error_frame)
      show ?thesis
        unfolding loop_post_def
        using c ev t le ns2 fin False by auto
    qed
  qed
qed

lemma regenerate_new_calls:
  "new_calls st (snd (regenerate env payload creds doc sh k st)) =
     (if 0 < k \<and> sh then [Generated k (endpoint st) doc (messages st)] else [])"
  by (auto simp: regenerate_def new_calls_def Let_def split: prod.splits sum.splits)

lemma transport_new_calls:
  "new_calls st (snd (transport env payload creds options k st)) = [Called k (endpoint st)]"
  by (auto simp: transport_def new_calls_def Let_def split: prod.splits sum.splits)

lemma validate_new_calls:
  "new_calls st (snd (validate env sh k st)) =
     (if 0 < k \<and> sh then [Evaluated k (response_data st)] else [])"
  by (auto simp: validate_def new_calls_def Let_def split: prod.splits sum.splits)

lemma calls_extend:
  "\<exists>evs. calls (snd (regenerate env payload creds doc sh k st)) = calls st @ evs"
  "\<exists>evs. calls (snd (transport env payload creds options k st)) = calls st @ evs"
  "\<exists>evs. calls (snd (validate env sh k st)) = calls st @ evs"
  by (auto simp: regenerate_def transport_def validate_def Let_def split: prod.splits sum.splits)

lemma new_calls_trans:
  "calls st1 = calls st @ evs \<Longrightarrow> calls st2 = calls st1 @ evs' \<Longrightarrow>
     new_calls st st2 = new_calls st st1 @ new_calls st1 st2"
  by (simp add: new_calls_def)

lemma attempt_new_calls:
  "new_calls st (snd (attempt env payload creds options doc sh k st)) =
     (let g = regenerate env payload creds doc sh k st;
          t = transport env payload creds options k (snd g)
      in (if 0 < k \<and> sh then [Generated k (endpoint st) doc (messages st)] else []) @
         (if fst g = None
          then Called k (endpoint (snd g)) #
               (if fst t = None \<and> 0 < k \<and> sh then [Evaluated k (response_data (snd t))] else [])
          else []))"
proof -
  obtain r1 st1 where g: "regenerate env payload creds doc sh k st = (r1, st1)"
    by (cases "regenerate env payload creds doc sh k st")
  obtain r2 st2 where t: "transport env payload creds options k st1 = (r2, st2)"
    by (cases "transport env payload creds options k st1")
  obtain r3 st3 where v: "validate env sh k st2 = (r3, st3)"
    by (cases "validate env sh k st2")
  from calls_extend(1) [of env payload creds doc sh k st] g
  obtain e1 where e1: "calls st1 = calls st @ e1" by auto
  from calls_extend(2) [of env payload creds options k st1] t
  obtain e2 where e2: "calls st2 = calls st1 @ e2" by auto
  from calls_extend(3) [of env sh k st2] v
  obtain e3 where e3: "calls st3 = calls st2 @ e3" by auto
  have n1: "new_calls st st1 = (if 0 < k \<and> sh then [Generated k (endpoint st) doc (messages st)] else [])"
    using regenerate_new_calls [of st env payload creds doc sh k] g by simp
  have n2: "new_calls st1 st2 = [Called k (endpoint st1)]"
    using transport_new_calls [of st1 env payload creds options k] t by simp
  have n3: "new_calls st2 st3 = (if 0 < k \<and> sh then [Evaluated k (response_data st2)] else [])"
    using validate_new_calls [of st2 env sh k] v by simp
  have n12: "new_calls st st2 = new_calls st st1 @ new_calls st1 st2"
    using new_calls_trans [OF e1 e2] .
  have e12: "calls st2 = calls st @ (e1 @ e2)" using e1 e2 by simp
  have n123: "new_calls st st3 = new_calls st st2 @ new_calls st2 st3"
    using new_calls_trans [OF e12 e3] .
  show ?thesis
  proof (cases r1)
    case (Some e)
    then show ?thesis using g n1 by (simp add: attempt_def Let_def)
  next
    case None
    note r1 = None
    show ?thesis
    proof (cases r2)
      case (Some e)
      then show ?thesis using g t r1 n1 n2 n12 by (simp add: attempt_def Let_def)
    next
      case None
      then show ?thesis using g t v r1 n1 n2 n3 n12 n123 by (simp add: attempt_def Let_def)
    qed
  qed
qed

subsection \<open>The loop with a smaller budget\<close>

lemma trunc_fail:
  "retry_loop env payload creds options doc sh limit j s = (k', sk) \<Longrightarrow> \<not> success sk \<Longrightarrow>
     int j < limit \<Longrightarrow> \<not> success s \<Longrightarrow>
     int k' = limit \<and>
     (\<forall>lim. limit < lim \<longrightarrow>
        retry_loop env payload creds options doc sh lim j s =
        retry_loop env payload creds options doc sh lim k' sk)"
proof (induction env payload creds options doc sh limit j s arbitrary: k' sk rule: retry_loop.induct)
  case (1 env payload creds options doc sh limit j s)
  obtain r s1 where a: "attempt env payload creds options doc sh j s = (r, s1)"
    by (cases "attempt env payload creds options doc sh j s")
  note eff = attempt_effect [OF a]
  show ?case
  proof (cases r)
    case None
    with a "1.prems"(1) have "sk = s1"
      by (simp add: retry_loop.simps [of env payload creds options doc sh limit j s])
    with eff(2) None "1.prems"(2) show ?thesis by simp
  next
    case (Some e)
    define s2 where "s2 = on_error env creds j e s1"
    have ns2: "\<not> success s2"
      using eff(3) Some "1.prems"(4) by (auto simp: s2_def on_error_frame)
    show ?thesis
    proof (cases "int (Suc j) < limit")
      case True
      have rec: "retry_loop env payload creds options doc sh limit (Suc j) s2 = (k', sk)"
        using a Some True "1.prems"(1)
        by (simp add: retry_loop.simps [of env payload creds options doc sh limit j s] s2_def Let_def)
      note ih = "1.IH" [OF a [symmetric] Some s2_def True rec "1.prems"(2) True ns2]
      have "\<forall>lim. limit < lim \<longrightarrow>
        retry_loop env payload creds options doc sh lim j s =
        retry_loop env payload creds options doc sh lim (Suc j) s2"
        using a Some True
        by (simp add: retry_loop.simps [of env payload creds options doc sh _ j s] s2_def Let_def)
      with ih show ?thesis by simp
    next
      case False
      have fin: "k' = Suc j" "sk = s2"
        using a Some False "1.prems"(1)
        by (simp_all add: retry_loop.simps [of env payload creds options doc sh limit j s] s2_def Let_def)
      have lim: "int (Suc j) = limit" using False "1.prems"(3) by simp
      have "\<forall>lim. limit < lim \<longrightarrow>
        retry_loop env payload creds options doc sh lim j s =
        retry_loop env payload creds options doc sh lim (Suc j) s2"
        using a Some lim
        by (simp add: retry_loop.simps [of env payload creds options doc sh _ j s] s2_def Let_def)
      with fin lim show ?thesis by simp
    qed
  qed
qed

lemma trunc_success:
  "retry_loop env payload creds options doc sh limit j s = (k', sk) \<Longrightarrow> success sk \<Longrightarrow>
     \<not> success s \<Longrightarrow> limit \<le> lim \<Longrightarrow>
     retry_loop env payload creds options doc sh lim j s = (k', sk)"
proof (induction env payload creds options doc sh limit j s arbitrary: k' sk rule: retry_loop.induct)
  case (1 env payload creds options doc sh limit j s)
  obtain r s1 where a: "attempt env payload creds options doc sh j s = (r, s1)"
    by (cases "attempt env payload creds options doc sh j s")
  note eff = attempt_effect [OF a]
  show ?case
  proof (cases r)
    case None
    with a "1.prems"(1) have "k' = j" "sk = s1"
      by (simp_all add: retry_loop.simps [of env payload creds options doc sh limit j s])
    with a None show ?thesis
      by (simp add: retry_loop.simps [of env payload creds options doc sh lim j s])
  next
    case (Some e)
    define s2 where "s2 = on_error env creds j e s1"
    have ns2: "\<not> success s2"
      using eff(3) Some "1.prems"(3) by (auto simp: s2_def on_error_frame)
    show ?thesis
    proof (cases "int (Suc j) < limit")
      case True
      have rec: "retry_loop env payload creds options doc sh limit (Suc j) s2 = (k', sk)"
        using a Some True "1.prems"(1)
        by (simp add: retry_loop.simps [of env payload creds options doc sh limit j s] s2_def Let_def)
      note ih = "1.IH" [OF a [symmetric] Some s2_def True rec "1.prems"(2) ns2 "1.prems"(4)]
      have "int (Suc j) < lim" using True "1.prems"(4) by simp
      then show ?thesis using a Some ih
        by (simp add: retry_loop.simps [of env payload creds options doc sh lim j s] s2_def Let_def)
    next
      case False
      have "sk = s2"
        using a Some False "1.prems"(1)
        by (simp add: retry_loop.simps [of env payload creds options doc sh limit j s] s2_def Let_def)
      with ns2 "1.prems"(2) show ?thesis by simp
    qed
  qed
qed

lemma initial_not_success [simp]: "\<not> success (initial_state config w)"
  by (simp add: initial_state_def)

lemma initial_calls [simp]: "calls (initial_state config w) = []"
  by (simp add: initial_state_def)

lemma state_before_0 [simp]:
  "state_before env config payload creds options doc w 0 = initial_state config w"
  by (simp add: state_before_def)

lemma reach_run:
  assumes "k = 0 \<or> \<not> success (state_before env config payload creds options doc w k)"
      and "k = 0 \<or> int k < lim"
  shows "retry_loop env payload creds options doc (isSelfHealingEnabled options) lim 0
           (initial_state config w) =
         retry_loop env payload creds options doc (isSelfHealingEnabled options) lim k
           (state_before env config payload creds options doc w k)"
proof (cases "k = 0")
  case True
  then show ?thesis by simp
next
  case False
  obtain k' sk where r: "retry_loop env payload creds options doc (isSelfHealingEnabled options)
      (int k) 0 (initial_state config w) = (k', sk)"
    by (cases "retry_loop env payload creds options doc (isSelfHealingEnabled options)
      (int k) 0 (initial_state config w)")
  have sk: "state_before env config payload creds options doc w k = sk"
    using False r by (simp add: state_before_def)
  have ns: "\<not> success sk" using assms(1) False sk by simp
  have "int 0 < int k" using False by simp
  from trunc_fail [OF r ns this] have "int k' = int k"
    and "\<forall>lim. int k < lim \<longrightarrow>
        retry_loop env payload creds options doc (isSelfHealingEnabled options) lim 0
          (initial_state config w) =
        retry_loop env payload creds options doc (isSelfHealingEnabled options) lim k' sk"
    by simp_all
  then show ?thesis using assms(2) False sk by simp
qed

lemma state_before_Suc:
  assumes "k = 0 \<or> \<not> success (state_before env config payload creds options doc w k)"
  shows "state_before env config payload creds options doc w (Suc k) =
           (case nth_attempt env config payload creds options doc w k of
              (None, s1) \<Rightarrow> s1
            | (Some e, s1) \<Rightarrow> on_error env creds k e s1)"
proof -
  have "k = 0 \<or> int k < int (Suc k)" by simp
  from reach_run [OF assms this]
  show ?thesis
    by (simp add: state_before_def [of _ _ _ _ _ _ _ "Suc k"] nth_attempt_def
          retry_loop.simps [of _ _ _ _ _ _ _ k] Let_def split: prod.splits option.splits)
qed

lemma nth_attempt_success:
  "nth_attempt env config payload creds options doc w k = (r, s1) \<Longrightarrow>
     k = 0 \<or> \<not> success (state_before env config payload creds options doc w k) \<Longrightarrow>
     success s1 = (r = None)"
  unfolding nth_attempt_def
  using attempt_effect(2,3) by (cases "k = 0") fastforce+


subsection \<open>The invocations of one attempt within a run\<close>

lemma executeApiCall_entered:
  assumes "documentationString integration (isSelfHealingEnabled options) = Inr doc"
  shows "executeApiCall env config payload creds options integration w =
     (case retry_loop env payload creds options doc (isSelfHealingEnabled options)
             (retryLimit options) 0 (initial_state config w) of
        (retryCount, st) \<Rightarrow>
          (if \<not> success st then Inl (exhausted retryCount (lastError st))
           else Inr \<lparr>res_data = response_data st, res_endpoint = endpoint st\<rparr>, st))"
  using assms by (simp add: executeApiCall_def Let_def)

lemma state_before_calls:
  "\<forall>ev\<in>set (calls (state_before env config payload creds options doc w k)). event_attempt ev < k"
proof (cases "k = 0")
  case True
  then show ?thesis by simp
next
  case False
  obtain k' sk where l: "retry_loop env payload creds options doc (isSelfHealingEnabled options)
      (int k) 0 (initial_state config w) = (k', sk)"
    by (cases "retry_loop env payload creds options doc (isSelfHealingEnabled options)
      (int k) 0 (initial_state config w)")
  from retry_loop_bounds [OF l] False
  have "\<forall>ev\<in>set (calls sk). int (event_attempt ev) < int k"
    unfolding loop_post_def by auto
  then show ?thesis using l False by (simp add: state_before_def)
qed

lemma attempt_calls_index:
  "attempt env payload creds options doc sh k st = (r, st1) \<Longrightarrow>
     calls st1 = calls st @ new_calls st st1 \<and> (\<forall>ev\<in>set (new_calls st st1). event_attempt ev = k)"
  using attempt_effect(5) [of env payload creds options doc sh k st r st1]
  by (auto simp: new_calls_def)

lemma calls_of_attempt:
  assumes "attempt_made env config payload creds options doc w k"
  shows "filter (\<lambda>ev. event_attempt ev = k)
           (calls (snd (retry_loop env payload creds options doc (isSelfHealingEnabled options)
                          (retryLimit options) 0 (initial_state config w)))) =
         new_calls (state_before env config payload creds options doc w k)
           (snd (nth_attempt env config payload creds options doc w k))"
proof -
  let ?sh = "isSelfHealingEnabled options"
  let ?L = "retryLimit options"
  let ?sk = "state_before env config payload creds options doc w k"
  have reached: "k = 0 \<or> \<not> success ?sk" and made: "k = 0 \<or> int k < ?L"
    using assms by (auto simp: attempt_made_def)
  have ns: "\<not> success ?sk" using reached by (cases "k = 0") auto
  have run: "retry_loop env payload creds options doc ?sh ?L 0 (initial_state config w) =
             retry_loop env payload creds options doc ?sh ?L k ?sk"
    by (rule reach_run [OF reached made])
  obtain r s1 where a: "attempt env payload creds options doc ?sh k ?sk = (r, s1)"
    by (cases "attempt env payload creds options doc ?sh k ?sk")
  note ac = attempt_calls_index [OF a]
  note eff = attempt_effect [OF a]
  have before: "filter (\<lambda>ev. event_attempt ev = k) (calls ?sk) = []"
    using state_before_calls [of env config payload creds options doc w k]
    by (auto simp: filter_empty_conv)
  have mid: "filter (\<lambda>ev. event_attempt ev = k) (new_calls ?sk s1) = new_calls ?sk s1"
    using ac by (simp add: filter_id_conv)
  have fin: "\<exists>evs. calls (snd (retry_loop env payload creds options doc ?sh ?L k ?sk)) =
               calls s1 @ evs \<and> (\<forall>ev\<in>set evs. Suc k \<le> event_attempt ev)"
  proof (cases r)
    case None
    then show ?thesis using a
      by (simp add: retry_loop.simps [of env payload creds options doc ?sh ?L k ?sk])
  next
    case (Some e)
    define s2 where "s2 = on_error env creds k e s1"
    have ns2: "\<not> success s2" using eff(3) Some ns by (auto simp: s2_def on_error_frame)
    show ?thesis
    proof (cases "int (Suc k) < ?L")
      case True
      obtain k' st' where l: "retry_loop env payload creds options doc ?sh ?L (Suc k) s2 = (k', st')"
        by (cases "retry_loop env payload creds options doc ?sh ?L (Suc k) s2")
      from retry_loop_bounds [OF l ns2] obtain evs where
        "calls st' = calls s2 @ evs" "\<forall>ev\<in>set evs. Suc k \<le> event_attempt ev"
        unfolding loop_post_def by blast
      moreover have "retry_loop env payload creds options doc ?sh ?L k ?sk = (k', st')"
        using a Some True l
        by (simp add: retry_loop.simps [of env payload creds options doc ?sh ?L k ?sk] s2_def Let_def)
      ultimately show ?thesis by (auto simp: s2_def on_error_frame)
    next
      case False
      then show ?thesis using a Some
        by (simp add: retry_loop.simps [of env payload creds options doc ?sh ?L k ?sk]
              Let_def on_error_frame)
    qed
  qed
  then obtain evs where e: "calls (snd (retry_loop env payload creds options doc ?sh ?L k ?sk)) =
               calls s1 @ evs" "\<forall>ev\<in>set evs. Suc k \<le> event_attempt ev" by blast
  have after: "filter (\<lambda>ev. event_attempt ev = k) evs = []"
    using e(2) by (auto simp: filter_empty_conv)
  have "calls (snd (retry_loop env payload creds options doc ?sh ?L k ?sk)) =
          calls ?sk @ new_calls ?sk s1 @ evs"
    using e(1) ac by simp
  then show ?thesis
    unfolding run using before mid after a by (simp add: nth_attempt_def)
qed

lemma run_state:
  assumes "documentationString integration (isSelfHealingEnabled options) = Inr doc"
  shows "snd (executeApiCall env config payload creds options integration w) =
         snd (retry_loop env payload creds options doc (isSelfHealingEnabled options)
                (retryLimit options) 0 (initial_state config w))"
  by (simp add: executeApiCall_entered [OF assms] split: prod.splits)

lemma made_fail_next:
  assumes "attempt_made env config payload creds options doc w k"
      and "nth_attempt env config payload creds options doc w k = (Some e, st1)"
  shows "state_before env config payload creds options doc w (Suc k) = on_error env creds k e st1"
    and "\<not> success (state_before env config payload creds options doc w (Suc k))"
proof -
  have reached: "k = 0 \<or> \<not> success (state_before env config payload creds options doc w k)"
    using assms(1) by (auto simp: attempt_made_def)
  show 1: "state_before env config payload creds options doc w (Suc k) = on_error env creds k e st1"
    using state_before_Suc [OF reached] assms(2) by simp
  have "\<not> success st1" using nth_attempt_success [OF assms(2) reached] by simp
  then show "\<not> success (state_before env config payload creds options doc w (Suc k))"
    by (simp add: 1 on_error_frame)
qed

lemma on_error_endpoint: "endpoint (on_error env creds k e st) = endpoint st"
  by (simp add: on_error_def Let_def)

lemma events_only_of_made:
  assumes "ev \<in> set (calls (snd (retry_loop env payload creds options doc (isSelfHealingEnabled options)
                          (retryLimit options) 0 (initial_state config w))))"
  shows "attempt_made env config payload creds options doc w (event_attempt ev)"
proof (cases "event_attempt ev = 0")
  case True
  then show ?thesis by (simp add: attempt_made_def)
next
  case False
  let ?sh = "isSelfHealingEnabled options"
  let ?L = "retryLimit options"
  let ?j = "event_attempt ev"
  obtain k' st' where l: "retry_loop env payload creds options doc ?sh ?L 0 (initial_state config w) = (k', st')"
    by (cases "retry_loop env payload creds options doc ?sh ?L 0 (initial_state config w)")
  have ev: "ev \<in> set (calls st')" using assms l by simp
  have lim: "int ?j < ?L"
  proof (cases "0 < ?L")
    case True
    from retry_loop_bounds [OF l] True ev show ?thesis
      unfolding loop_post_def by auto
  next
    case neg: False
    obtain r s1 where a: "attempt env payload creds options doc ?sh 0 (initial_state config w) = (r, s1)"
      by (cases "attempt env payload creds options doc ?sh 0 (initial_state config w)")
    have "calls st' = calls s1"
      using l a neg
      by (cases r)
         (auto simp: retry_loop.simps [of env payload creds options doc ?sh ?L 0] Let_def
            on_error_frame)
    with attempt_effect(5) [OF a] ev have "?j = 0" by auto
    with False show ?thesis by simp
  qed
  have "\<not> success (state_before env config payload creds options doc w ?j)"
  proof
    assume s: "success (state_before env config payload creds options doc w ?j)"
    obtain k2 sk where t: "retry_loop env payload creds options doc ?sh (int ?j) 0
        (initial_state config w) = (k2, sk)"
      by (cases "retry_loop env payload creds options doc ?sh (int ?j) 0 (initial_state config w)")
    have sk: "state_before env config payload creds options doc w ?j = sk"
      using t False by (simp add: state_before_def)
    from trunc_success [OF t, of ?L] s sk lim
    have "retry_loop env payload creds options doc ?sh ?L 0 (initial_state config w) = (k2, sk)"
      by simp
    with l have "st' = sk" by simp
    with ev sk state_before_calls [of env config payload creds options doc w ?j]
    show False by auto
  qed
  with lim show ?thesis by (simp add: attempt_made_def)
qed

subsection \<open>How a run ends\<close>






subsection \<open>What the concrete masker removes\<close>









subsection \<open>Claims\<close>

text \<open>
  C4. Self-healing is enabled by default: \<open>isSelfHealingEnabled\<close> is false exactly when
  the self-healing option is set to a value that is neither \<open>ENABLED\<close> nor
  \<open>REQUEST_ONLY\<close>; absent options and an unset option count as enabled.
\<close>

theorem isSelfHealingEnabled_polarity:
  "(\<not> isSelfHealingEnabled options) =
     (\<exists>opts m. options = Some opts \<and> selfHealing opts = Some m \<and> m \<noteq> ENABLED \<and> m \<noteq> REQUEST_ONLY)"
  by (auto simp: isSelfHealingEnabled_def split: option.splits)

theorem isSelfHealingEnabled_polarity_witness:
  "\<not> isSelfHealingEnabled (Some (demo_options (Some DISABLED) None)) \<and>
   isSelfHealingEnabled (Some (demo_options (Some REQUEST_ONLY) None)) \<and>
   isSelfHealingEnabled (Some (demo_options (Some ENABLED) None)) \<and>
   isSelfHealingEnabled (Some (demo_options None None)) \<and>
   isSelfHealingEnabled None"
  using isSelfHealingEnabled_polarity [of "Some (demo_options (Some DISABLED) None)"]
        isSelfHealingEnabled_polarity [of "Some (demo_options (Some REQUEST_ONLY) None)"]
        isSelfHealingEnabled_polarity [of "Some (demo_options (Some ENABLED) None)"]
        isSelfHealingEnabled_polarity [of "Some (demo_options None None)"]
        isSelfHealingEnabled_polarity [of None]
  by (simp add: demo_options_def)

text \<open>
  C1 (as the code has it). Take a call of \<open>executeApiCall\<close> that enters the retry loop
  and an attempt \<open>k\<close> that the call makes and that fails with the error \<open>e\<close>. Its
  \<open>catch\<close> block masks the error for \<open>lastError\<close> only (credentials masked, then cut to
  1000 characters). If \<open>k = 0\<close> nothing is appended to the transcript; if \<open>k > 0\<close> the
  transcript gains a user-role message made of the fixed request to fix the configuration
  and the raw, unmasked string of \<open>e\<close> cut to 2000 characters, followed at most by the
  JSONata guide. When the call goes on to attempt \<open>k + 1\<close> with self-healing enabled, the
  synthesizer is invoked with exactly this transcript; when the budget ends here, this is
  the final state of the call.
\<close>

theorem failing_attempt_feedback:
  assumes "documentationString integration (isSelfHealingEnabled options) = Inr doc"
      and "attempt_made env config payload creds options doc w k"
      and "nth_attempt env config payload creds options doc w k = (Some e, st1)"
  shows "lastError (state_before env config payload creds options doc w (Suc k)) =
           Some (take 1000 (maskCredentials env (rawErrorString e) creds)) \<and>
         (k = 0 \<longrightarrow>
            messages (state_before env config payload creds options doc w (Suc k)) = messages st1) \<and>
         (0 < k \<longrightarrow>
            (\<exists>rest. messages (state_before env config payload creds options doc w (Suc k)) =
                      messages st1 @ user_message (fix_prefix @ take 2000 (rawErrorString e)) # rest \<and>
                    (rest = [] \<or>
                     rest = [user_message (''Please find the JSONata guide here: '' @
                                          PROMPT_MAPPING env)]))) \<and>
         (int (Suc k) < retryLimit options \<and> isSelfHealingEnabled options \<longrightarrow>
            Generated (Suc k) (endpoint st1) doc
              (messages (state_before env config payload creds options doc w (Suc k)))
            \<in> set (calls (snd (executeApiCall env config payload creds options integration w)))) \<and>
         (\<not> int (Suc k) < retryLimit options \<longrightarrow>
            snd (executeApiCall env config payload creds options integration w) =
            state_before env config payload creds options doc w (Suc k))"
proof -
  let ?sb = "state_before env config payload creds options doc w"
  let ?sh = "isSelfHealingEnabled options"
  let ?L = "retryLimit options"
  let ?run = "snd (executeApiCall env config payload creds options integration w)"
  note nx = made_fail_next [OF assms(2,3)]
  have reached: "k = 0 \<or> \<not> success (?sb k)" and made: "k = 0 \<or> int k < ?L"
    using assms(2) by (auto simp: attempt_made_def)
  have a: "lastError (?sb (Suc k)) = Some (take 1000 (maskCredentials env (rawErrorString e) creds))"
    by (simp add: nx(1) on_error_frame)
  have b: "k = 0 \<longrightarrow> messages (?sb (Suc k)) = messages st1"
    using nx(1) by (auto simp: on_error_def Let_def)
  have c: "0 < k \<longrightarrow>
            (\<exists>rest. messages (?sb (Suc k)) =
                      messages st1 @ user_message (fix_prefix @ take 2000 (rawErrorString e)) # rest \<and>
                    (rest = [] \<or>
                     rest = [user_message (''Please find the JSONata guide here: '' @
                                          PROMPT_MAPPING env)]))"
    by (auto simp: nx(1) on_error_def push_feedback_def Let_def)
  have d: "int (Suc k) < ?L \<and> ?sh \<longrightarrow>
            Generated (Suc k) (endpoint st1) doc (messages (?sb (Suc k))) \<in> set (calls ?run)"
  proof
    assume h: "int (Suc k) < ?L \<and> ?sh"
    then have m: "attempt_made env config payload creds options doc w (Suc k)"
      using nx(2) by (simp add: attempt_made_def)
    have "Generated (Suc k) (endpoint (?sb (Suc k))) doc (messages (?sb (Suc k)))
            \<in> set (new_calls (?sb (Suc k)) (snd (nth_attempt env config payload creds options doc w (Suc k))))"
      using h by (simp add: nth_attempt_def attempt_new_calls Let_def)
    then have "Generated (Suc k) (endpoint (?sb (Suc k))) doc (messages (?sb (Suc k)))
            \<in> set (filter (\<lambda>ev. event_attempt ev = Suc k) (calls ?run))"
      using calls_of_attempt [OF m] by (simp add: run_state [OF assms(1)])
    then show "Generated (Suc k) (endpoint st1) doc (messages (?sb (Suc k))) \<in> set (calls ?run)"
      by (simp add: nx(1) on_error_endpoint)
  qed
  have f: "\<not> int (Suc k) < ?L \<longrightarrow> ?run = ?sb (Suc k)"
  proof
    assume h: "\<not> int (Suc k) < ?L"
    have "retry_loop env payload creds options doc ?sh ?L 0 (initial_state config w) =
          retry_loop env payload creds options doc ?sh ?L k (?sb k)"
      by (rule reach_run [OF reached made])
    also have "\<dots> = (Suc k, on_error env creds k e st1)"
      using assms(3) h
      by (simp add: nth_attempt_def retry_loop.simps [of env payload creds options doc ?sh ?L k] Let_def)
    finally show "?run = ?sb (Suc k)"
      by (simp add: run_state [OF assms(1)] nx(1))
  qed
  from a b c d f show ?thesis by blast
qed

theorem failing_attempt_feedback_witness:
  "documentationString None (isSelfHealingEnabled (Some (demo_options None (Some 3)))) = Inr [] \<and>
   attempt_made demo_env (demo_config ''down'' ''down'') JNull [(''apiKey'', ''SECRET'')]
     (Some (demo_options None (Some 3))) [] 0 1 \<and>
   fst (nth_attempt demo_env (demo_config ''down'' ''down'') JNull [(''apiKey'', ''SECRET'')]
     (Some (demo_options None (Some 3))) [] 0 1) = Some (Error ''401 for key SECRET'') \<and>
   lastError (state_before demo_env (demo_config ''down'' ''down'') JNull [(''apiKey'', ''SECRET'')]
     (Some (demo_options None (Some 3))) [] 0 2) = Some ''401 for key {masked_apiKey}'' \<and>
   Generated 2 (demo_config ''down'' ''down'') []
     [user_message ''There was an error with the configuration, please fix: 401 for key SECRET'']
   \<in> set (calls (snd (executeApiCall demo_env (demo_config ''down'' ''down'') JNull
                       [(''apiKey'', ''SECRET'')] (Some (demo_options None (Some 3))) None 0)))"
proof -
  let ?cfg = "demo_config ''down'' ''down''"
  let ?creds = "[(''apiKey'', ''SECRET'')]"
  let ?opts = "Some (demo_options None (Some 3))"
  let ?e = "Error ''401 for key SECRET''"
  let ?na = "nth_attempt demo_env ?cfg JNull ?creds ?opts [] (0::nat) 1"
  let ?sb2 = "state_before demo_env ?cfg JNull ?creds ?opts [] (0::nat) (Suc 1)"
  have h1: "documentationString None (isSelfHealingEnabled ?opts) = Inr []" by code_simp
  have h2: "attempt_made demo_env ?cfg JNull ?creds ?opts [] (0::nat) 1" by code_simp
  have f: "fst ?na = Some ?e" by code_simp
  have h3: "?na = (Some ?e, snd ?na)"
    using f by (cases ?na) simp
  have g: "int (Suc 1) < retryLimit ?opts \<and> isSelfHealingEnabled ?opts" by code_simp
  have m: "take 1000 (maskCredentials demo_env (rawErrorString ?e) ?creds) =
             ''401 for key {masked_apiKey}''"
    by code_simp
  have c: "endpoint (snd ?na) = ?cfg" by code_simp
  have t: "messages ?sb2 =
      [user_message ''There was an error with the configuration, please fix: 401 for key SECRET'']"
    by code_simp
  note th = failing_attempt_feedback [OF h1 h2 h3]
  from th have l: "lastError ?sb2 =
      Some (take 1000 (maskCredentials demo_env (rawErrorString ?e) ?creds))"
    by (rule conjunct1)
  from th [THEN conjunct2, THEN conjunct2, THEN conjunct2, THEN conjunct1, rule_format, OF g]
  have "Generated (Suc 1) (endpoint (snd ?na)) [] (messages ?sb2)
          \<in> set (calls (snd (executeApiCall demo_env ?cfg JNull ?creds ?opts None 0)))" .
  then have "Generated 2 ?cfg []
      [user_message ''There was an error with the configuration, please fix: 401 for key SECRET'']
      \<in> set (calls (snd (executeApiCall demo_env ?cfg JNull ?creds ?opts None 0)))"
    by (simp only: c t) (simp add: numeral_2_eq_2)
  moreover have "lastError (state_before demo_env ?cfg JNull ?creds ?opts [] (0::nat) 2) =
      Some ''401 for key {masked_apiKey}''"
    using l m by (simp add: numeral_2_eq_2)
  ultimately show ?thesis using h1 h2 f by blast
qed

text \<open>
  C1 as stated fails: with the credential \<open>apiKey = SECRET\<close>, a retry budget of 2 and
  a transport that fails naming the key, the transcript after the run holds the raw error
  with \<open>SECRET\<close> in it, not the masked one.
\<close>

theorem transcript_masked_counterexample:
  "messages (snd (executeApiCall demo_env (demo_config ''down'' ''down'') JNull
                    [(''apiKey'', ''SECRET'')] (Some (demo_options None (Some 2))) None 0)) =
     [user_message ''There was an error with the configuration, please fix: 401 for key SECRET''] \<and>
   maskCredentials demo_env ''401 for key SECRET'' [(''apiKey'', ''SECRET'')] =
     ''401 for key {masked_apiKey}''"
  by code_simp



text \<open>
  C3 (as the code has it). Take a call of \<open>executeApiCall\<close> that enters the retry loop.
  The invocations of attempt 0 are the transport call with the supplied config and nothing
  else, whatever the self-healing mode, and every invocation of the call belongs to an
  attempt that the call makes. For an attempt \<open>k\<close> that the call makes: the synthesizer
  is invoked on it exactly when \<open>k > 0\<close> and self-healing is enabled; its transport call
  uses the config left by the synthesis; the validator is invoked on it exactly when
  \<open>k > 0\<close>, self-healing is enabled, the synthesis did not throw and the transport call
  returned non-empty data.
\<close>

theorem attempt_zero_and_validation:
  assumes "documentationString integration (isSelfHealingEnabled options) = Inr doc"
      and "attempt_made env config payload creds options doc w k"
  shows "filter (\<lambda>ev. event_attempt ev = 0)
           (calls (snd (executeApiCall env config payload creds options integration w))) =
           [Called 0 config] \<and>
         (\<forall>ev\<in>set (calls (snd (executeApiCall env config payload creds options integration w))).
            attempt_made env config payload creds options doc w (event_attempt ev)) \<and>
         ((\<exists>c d ms. Generated k c d ms \<in>
              set (calls (snd (executeApiCall env config payload creds options integration w)))) =
            (0 < k \<and> isSelfHealingEnabled options)) \<and>
         (\<forall>c. Called k c \<in>
              set (calls (snd (executeApiCall env config payload creds options integration w))) \<longrightarrow>
            c = endpoint (snd (regenerate env payload creds doc (isSelfHealingEnabled options) k
                                 (state_before env config payload creds options doc w k)))) \<and>
         ((\<exists>d. Evaluated k d \<in>
              set (calls (snd (executeApiCall env config payload creds options integration w)))) =
            (0 < k \<and> isSelfHealingEnabled options \<and>
             fst (regenerate env payload creds doc (isSelfHealingEnabled options) k
                    (state_before env config payload creds options doc w k)) = None \<and>
             fst (transport env payload creds options k
                    (snd (regenerate env payload creds doc (isSelfHealingEnabled options) k
                            (state_before env config payload creds options doc w k)))) = None))"
proof -
  let ?sh = "isSelfHealingEnabled options"
  let ?sb = "state_before env config payload creds options doc w"
  let ?run = "snd (executeApiCall env config payload creds options integration w)"
  note rs = run_state [OF assms(1), of env config payload creds w]
  have m0: "attempt_made env config payload creds options doc w 0"
    by (simp add: attempt_made_def)
  have z: "filter (\<lambda>ev. event_attempt ev = 0) (calls ?run) = [Called 0 config]"
    using calls_of_attempt [OF m0]
    by (simp add: rs nth_attempt_def attempt_new_calls Let_def regenerate_def initial_state_def)
  have o: "\<forall>ev\<in>set (calls ?run). attempt_made env config payload creds options doc w (event_attempt ev)"
    using events_only_of_made [of _ env payload creds options doc config w] by (simp add: rs)
  have fk: "filter (\<lambda>ev. event_attempt ev = k) (calls ?run) =
      (let g = regenerate env payload creds doc ?sh k (?sb k);
           t = transport env payload creds options k (snd g)
       in (if 0 < k \<and> ?sh then [Generated k (endpoint (?sb k)) doc (messages (?sb k))] else []) @
          (if fst g = None
           then Called k (endpoint (snd g)) #
                (if fst t = None \<and> 0 < k \<and> ?sh then [Evaluated k (response_data (snd t))] else [])
           else []))"
    using calls_of_attempt [OF assms(2)] by (simp add: rs nth_attempt_def attempt_new_calls)
  have mem: "\<And>ev. event_attempt ev = k \<Longrightarrow>
      (ev \<in> set (calls ?run)) = (ev \<in> set (filter (\<lambda>ev. event_attempt ev = k) (calls ?run)))"
    by simp
  have g: "(\<exists>c d ms. Generated k c d ms \<in> set (calls ?run)) = (0 < k \<and> ?sh)"
    by (subst mem, simp, unfold fk) (auto simp: Let_def)
  have c: "\<forall>c. Called k c \<in> set (calls ?run) \<longrightarrow>
            c = endpoint (snd (regenerate env payload creds doc ?sh k (?sb k)))"
    by (subst mem, simp, unfold fk) (auto simp: Let_def split: if_splits)
  have v: "(\<exists>d. Evaluated k d \<in> set (calls ?run)) =
            (0 < k \<and> ?sh \<and>
             fst (regenerate env payload creds doc ?sh k (?sb k)) = None \<and>
             fst (transport env payload creds options k
                    (snd (regenerate env payload creds doc ?sh k (?sb k)))) = None)"
    by (subst mem, simp, unfold fk) (auto simp: Let_def)
  from z o g c v show ?thesis by blast
qed

theorem attempt_zero_and_validation_witness:
  "documentationString None (isSelfHealingEnabled None) = Inr [] \<and>
   attempt_made demo_env (demo_config ''down'' ''api.example.com'') JNull [] None [] 0 1 \<and>
   filter (\<lambda>ev. event_attempt ev = 0)
     (calls (snd (executeApiCall demo_env (demo_config ''down'' ''api.example.com'') JNull [] None
                    None 0))) =
     [Called 0 (demo_config ''down'' ''api.example.com'')] \<and>
   (\<exists>c d ms. Generated 1 c d ms \<in>
      set (calls (snd (executeApiCall demo_env (demo_config ''down'' ''api.example.com'') JNull []
                         None None 0)))) \<and>
   (\<exists>d. Evaluated 1 d \<in>
      set (calls (snd (executeApiCall demo_env (demo_config ''down'' ''api.example.com'') JNull []
                         None None 0)))) \<and>
   calls (snd (executeApiCall demo_env (demo_config ''down'' ''api.example.com'') JNull [] None None 0)) =
     [Called 0 (demo_config ''down'' ''api.example.com''),
      Generated 1 (demo_config ''down'' ''api.example.com'') [] [],
      Called 1 (demo_config ''api.example.com'' ''api.example.com''),
      Evaluated 1 (JStr ''ok'')]"
proof -
  let ?cfg = "demo_config ''down'' ''api.example.com''"
  let ?run = "snd (executeApiCall demo_env ?cfg JNull [] None None (0::nat))"
  let ?sb = "state_before demo_env ?cfg JNull [] None [] (0::nat) 1"
  have h1: "documentationString None (isSelfHealingEnabled None) = Inr []" by code_simp
  have h2: "attempt_made demo_env ?cfg JNull [] None [] (0::nat) 1" by code_simp
  have sh: "0 < (1::nat) \<and> isSelfHealingEnabled None" by code_simp
  have r: "fst (regenerate demo_env JNull [] [] (isSelfHealingEnabled None) 1 ?sb) = None"
    by code_simp
  have t: "fst (transport demo_env JNull [] None 1
             (snd (regenerate demo_env JNull [] [] (isSelfHealingEnabled None) 1 ?sb))) = None"
    by code_simp
  have c: "calls ?run =
     [Called 0 ?cfg, Generated 1 ?cfg [] [],
      Called 1 (demo_config ''api.example.com'' ''api.example.com''), Evaluated 1 (JStr ''ok'')]"
    by code_simp
  note th = attempt_zero_and_validation [OF h1 h2]
  from th have z: "filter (\<lambda>ev. event_attempt ev = 0) (calls ?run) = [Called 0 ?cfg]"
    by (rule conjunct1)
  from th [THEN conjunct2, THEN conjunct2, THEN conjunct1] sh
  have g: "\<exists>c d ms. Generated 1 c d ms \<in> set (calls ?run)" by simp
  from th [THEN conjunct2, THEN conjunct2, THEN conjunct2, THEN conjunct2] sh r t
  have v: "\<exists>d. Evaluated 1 d \<in> set (calls ?run)" by simp
  from h1 h2 z g v c show ?thesis by blast
qed

text \<open>
  C3 as stated fails: with self-healing enabled and a transport that fails, attempt 1
  invokes the synthesizer and the transport caller but not the validator.
\<close>

theorem validator_not_invoked_counterexample:
  "isSelfHealingEnabled (Some (demo_options None (Some 2))) \<and>
   calls (snd (executeApiCall demo_env (demo_config ''down'' ''down'') JNull []
                 (Some (demo_options None (Some 2))) None 0)) =
     [Called 0 (demo_config ''down'' ''down''),
      Generated 1 (demo_config ''down'' ''down'') [] [],
      Called 1 (demo_config ''down'' ''down'')]"
  by code_simp

text \<open>
  C9. With no integration and self-healing disabled, \<open>executeApiCall\<close> throws the
  \<open>TypeError\<close> of reading \<open>integration.documentation\<close> before the first attempt: no
  collaborator is invoked.
\<close>

theorem missing_integration_crash:
  "executeApiCall env config payload creds
     (Some \<lparr>selfHealing = Some DISABLED, cacheMode = cm, retries = r, webhookUrl = url, testMode = tm\<rparr>)
     None w = (Inl undefined_documentation, initial_state config w)"
  by (simp add: executeApiCall_def isSelfHealingEnabled_def documentationString_def)

theorem missing_integration_crash_witness:
  "fst (executeApiCall demo_env (demo_config ''api.example.com'' ''api.example.com'') JNull []
     (Some (demo_options (Some DISABLED) None)) None 0) = Inl undefined_documentation \<and>
   calls (snd (executeApiCall demo_env (demo_config ''api.example.com'' ''api.example.com'') JNull []
     (Some (demo_options (Some DISABLED) None)) None 0)) = [] \<and>
   fst (executeApiCall demo_env (demo_config ''api.example.com'' ''api.example.com'') JNull []
     (Some (demo_options (Some ENABLED) None)) None 0) =
     Inr \<lparr>res_data = JStr ''ok'', res_endpoint = demo_config ''api.example.com'' ''api.example.com''\<rparr>"
proof -
  have ok: "fst (executeApiCall demo_env (demo_config ''api.example.com'' ''api.example.com'') JNull []
     (Some (demo_options (Some ENABLED) None)) None 0) =
     Inr \<lparr>res_data = JStr ''ok'', res_endpoint = demo_config ''api.example.com'' ''api.example.com''\<rparr>"
    by code_simp
  from missing_integration_crash
         [where env = demo_env and config = "demo_config ''api.example.com'' ''api.example.com''"
            and payload = JNull and creds = "[]" and cm = None and r = None and url = None
            and tm = None and w = 0]
  show ?thesis using ok
    by (simp add: demo_options_def initial_state_def)
qed


section \<open>Properties of the call orchestrator\<close>

text \<open>
  C10. When the \<open>try\<close> block of \<open>callResolver\<close> fails with \<open>error\<close> and a webhook
  URL is configured, the failure notification carries the raw \<open>error.message\<close>, while
  the run record that is persisted and returned (once the awaited notification has
  returned) carries the error masked by \<open>maskCredentials\<close>. If the notification itself
  throws, no run is persisted and its error leaves \<open>callResolver\<close>.
\<close>

theorem failure_notification_is_raw:
  assumes "resolver_try env input payload creds options callId orgId w = (Inl error, ep, w1, effects)"
      and "configuredWebhook options = Some url"
  shows "callResolver env input payload creds options callId orgId w =
           (case notifyWebhook env url callId False JUndefined (Some (message error)) w1 of
              (None, w2) \<Rightarrow>
                (Inr \<lparr>run_id = callId, run_success = False,
                      run_error = Some (maskCredentials (executor env) (message error) creds),
                      run_config = ep, run_data = None\<rparr>,
                 w2,
                 effects @
                   [NotifyWebhook url callId False JUndefined (Some (message error)),
                    CreateRun \<lparr>run_id = callId, run_success = False,
                               run_error = Some (maskCredentials (executor env) (message error) creds),
                               run_config = ep, run_data = None\<rparr> orgId])
            | (Some e, w2) \<Rightarrow>
                (Inl e, w2,
                 effects @ [NotifyWebhook url callId False JUndefined (Some (message error))]))"
  using assms
  by (simp add: callResolver_def resolver_catch_def Let_def split: prod.splits option.splits)

theorem failure_notification_is_raw_witness:
  "resolver_try demo_resolver_env demo_input JNull [(''apiKey'', ''SECRET'')]
       (Some demo_webhook_options) ''run-1'' ''org'' 0 =
     (Inl (Error ''response echoes key SECRET without a schema''),
      Some (demo_config ''api.example.com'' ''list users''), 2, []) \<and>
   configuredWebhook (Some demo_webhook_options) = Some ''https://hook.example.com'' \<and>
   callResolver demo_resolver_env demo_input JNull [(''apiKey'', ''SECRET'')]
       (Some demo_webhook_options) ''run-1'' ''org'' 0 =
     (Inr \<lparr>run_id = ''run-1'', run_success = False,
           run_error = Some ''response echoes key {masked_apiKey} without a schema'',
           run_config = Some (demo_config ''api.example.com'' ''list users''), run_data = None\<rparr>,
      3,
      [NotifyWebhook ''https://hook.example.com'' ''run-1'' False JUndefined
         (Some ''response echoes key SECRET without a schema''),
       CreateRun \<lparr>run_id = ''run-1'', run_success = False,
                  run_error = Some ''response echoes key {masked_apiKey} without a schema'',
                  run_config = Some (demo_config ''api.example.com'' ''list users''),
                  run_data = None\<rparr> ''org''])"
proof -
  have t: "resolver_try demo_resolver_env demo_input JNull [(''apiKey'', ''SECRET'')]
       (Some demo_webhook_options) ''run-1'' ''org'' 0 =
     (Inl (Error ''response echoes key SECRET without a schema''),
      Some (demo_config ''api.example.com'' ''list users''), 2, [])"
    by code_simp
  have h: "configuredWebhook (Some demo_webhook_options) = Some ''https://hook.example.com''"
    by code_simp
  have n: "notifyWebhook demo_resolver_env ''https://hook.example.com'' ''run-1'' False JUndefined
             (Some ''response echoes key SECRET without a schema'') 2 = (None, 3)"
    by code_simp
  have m: "maskCredentials (executor demo_resolver_env)
             ''response echoes key SECRET without a schema''
             [(''apiKey'', ''SECRET'')] = ''response echoes key {masked_apiKey} without a schema''"
    by code_simp
  have e: "message (Error ''response echoes key SECRET without a schema'') =
             ''response echoes key SECRET without a schema''"
    by (simp add: Error_def)
  from failure_notification_is_raw [OF t h] t h n m e show ?thesis
    by simp
qed


section \<open>Properties of the execution strategies\<close>

subsection \<open>Effects of the phases\<close>

lemma call_executor_eq:
  "call_executor env c p cr opts st =
     (fst (executeApiCall_api env c p cr opts (st_world st)),
      st\<lparr>st_world := snd (executeApiCall_api env c p cr opts (st_world st)),
         st_events := st_events st @ [Executed c p opts]\<rparr>)"
  by (simp add: call_executor_def split: prod.splits)

lemma call_jsonata_eq:
  "call_jsonata env d m st =
     (fst (applyJsonata env d m (st_world st)),
      st\<lparr>st_world := snd (applyJsonata env d m (st_world st)),
         st_events := st_events st @ [Mapped d m]\<rparr>)"
  by (simp add: call_jsonata_def split: prod.splits)

lemma call_extract_eq:
  "call_extract env p sel st =
     (fst (transformAndValidateSchema env p sel (st_world st)),
      st\<lparr>st_world := snd (transformAndValidateSchema env p sel (st_world st)),
         st_events := st_events st @ [Extracted p sel]\<rparr>)"
  by (simp add: call_extract_def split: prod.splits)

lemma call_generate_eq:
  "call_generate env p instr st =
     (fst (generateTransformCode env arraySchema p instr (st_world st)),
      st\<lparr>st_world := snd (generateTransformCode env arraySchema p instr (st_world st)),
         st_events := st_events st @ [Synthesized instr]\<rparr>)"
  by (simp add: call_generate_def split: prod.splits)

lemma frame_eq_refl [simp]: "frame_eq a a"
  by (simp add: frame_eq_def)

lemma frame_eq_trans: "frame_eq a b \<Longrightarrow> frame_eq b c \<Longrightarrow> frame_eq a c"
  by (simp add: frame_eq_def)

lemma frame_eq_update [simp]:
  "frame_eq (a\<lparr>loopSelector := s\<rparr>) b = frame_eq a b"
  "frame_eq (a\<lparr>apiConfig := c\<rparr>) b = frame_eq a b"
  by (simp_all add: frame_eq_def)

lemma keeps_loop_vars_refl [simp]: "keeps_loop_vars st st"
  by (simp add: keeps_loop_vars_def)

lemma keeps_loop_vars_trans:
  "keeps_loop_vars a b \<Longrightarrow> keeps_loop_vars b c \<Longrightarrow> keeps_loop_vars a c"
  by (auto simp: keeps_loop_vars_def intro: frame_eq_trans)

lemma resolve_selector_effect:
  "resolve_selector payload st = (r, st1) \<Longrightarrow>
     keeps_loop_vars st st1 \<and> st_events st1 = st_events st \<and> st_world st1 = st_world st \<and>
     (loopSelector (st_step st1) = loopSelector (st_step st) \<or>
      loopSelector (st_step st1) = Some ''$'')"
  by (auto simp: resolve_selector_def keeps_loop_vars_def executions_def split: if_splits)

lemma extract_items_effect:
  "extract_items env payload st = (r, st1) \<Longrightarrow>
     keeps_loop_vars st st1 \<and> st_step st1 = st_step st \<and>
     st_events st1 = st_events st @ [Extracted payload (selector_of (st_step st))]"
  by (auto simp: extract_items_def call_extract_eq keeps_loop_vars_def executions_def
           split: sum.splits)

lemma regenerate_items_effect:
  "regenerate_items env payload st = (r, st1) \<Longrightarrow>
     keeps_loop_vars st st1 \<and>
     (\<exists>evs. st_events st1 = st_events st @ evs \<and>
            length (filter is_Synthesized evs) \<le> 1 \<and>
            length (filter is_Extracted evs) \<le> 1 \<and>
            (length (filter is_Synthesized evs) = 1) = (\<exists>entries. own_entries payload = Inr entries) \<and>
            (length (filter is_Extracted evs) = 1) =
              (\<exists>entries code. own_entries payload = Inr entries \<and> code \<noteq> [] \<and>
                 fst (generateTransformCode env arraySchema payload
                        (selector_instruction (st_step st) entries) (st_world st)) = Inr (Some code)) \<and>
            (loopSelector (st_step st1) = loopSelector (st_step st) \<or>
             (\<exists>code. code \<noteq> [] \<and> loopSelector (st_step st1) = Some code \<and>
                     length (filter is_Synthesized evs) = 1)))"
  by (auto simp: regenerate_items_def extract_items_def call_extract_eq call_generate_eq
                 keeps_loop_vars_def executions_def
           split: sum.splits option.splits if_splits)

lemma iteration_try_effect:
  "iteration_try env payload creds options currentItem st = (r, st1) \<Longrightarrow>
     executions st1 = Suc (executions st) \<and>
     extractions st1 = extractions st \<and> syntheses st1 = syntheses st \<and>
     frame_eq (st_step st1) (st_step st) \<and>
     loopSelector (st_step st1) = loopSelector (st_step st) \<and>
     (config_of_record step st \<longrightarrow> config_of_record step st1)"
  by (auto simp: iteration_try_def call_executor_eq call_jsonata_eq Let_def
                 executions_def extractions_def syntheses_def config_of_record_def
           split: sum.splits)

lemma iteration_try_executor_failure:
  "fst (executeApiCall_api env (current_config st) (loop_payload env payload currentItem) creds
          (options\<lparr>testMode := Some False\<rparr>) (st_world st)) = Inl callError \<Longrightarrow>
   iteration_try env payload creds options currentItem st =
     (Some callError,
      st\<lparr>st_world := snd (executeApiCall_api env (current_config st)
                           (loop_payload env payload currentItem) creds
                           (options\<lparr>testMode := Some False\<rparr>) (st_world st)),
         st_events := st_events st @
           [Executed (current_config st) (loop_payload env payload currentItem)
              (options\<lparr>testMode := Some False\<rparr>)]\<rparr>)"
  by (simp add: iteration_try_def call_executor_eq)

lemma iterate_effect:
  "iterate env payload creds options n i items st = (r, st1) \<Longrightarrow>
     extractions st1 = extractions st \<and> syntheses st1 = syntheses st \<and>
     frame_eq (st_step st1) (st_step st) \<and>
     loopSelector (st_step st1) = loopSelector (st_step st) \<and>
     (config_of_record step st \<longrightarrow> config_of_record step st1) \<and>
     executions st1 \<le> executions st + length items \<and>
     (r = None \<longrightarrow> executions st1 = executions st + length items)"
proof (induction items arbitrary: i st)
  case Nil
  then show ?case by simp
next
  case (Cons item rest)
  obtain r0 st0 where t: "iteration_try env payload creds options (current_item item) st = (r0, st0)"
    by (cases "iteration_try env payload creds options (current_item item) st")
  note eff = iteration_try_effect [OF t, of step]
  show ?case
  proof (cases r0)
    case (Some e)
    with Cons.prems t have "st1 = st0" "r \<noteq> None" by (auto simp: Let_def)
    with eff show ?thesis by auto
  next
    case None
    with Cons.prems t have "iterate env payload creds options n (Suc i) rest st0 = (r, st1)"
      by (simp add: Let_def)
    from Cons.IH [OF this] eff show ?thesis
      by (auto intro: frame_eq_trans)
  qed
qed

lemma iterate_append:
  "iterate env payload creds options n i (pre @ rest) st =
     (case iterate env payload creds options n i pre st of
        (Some e, st1) \<Rightarrow> (Some e, st1)
      | (None, st1) \<Rightarrow> iterate env payload creds options n (i + length pre) rest st1)"
proof (induction pre arbitrary: i st)
  case Nil
  then show ?case by simp
next
  case (Cons item pre)
  show ?case
    by (simp add: Let_def Cons.IH split: prod.splits option.splits)
qed

lemma loop_items_effect:
  "loop_items env payload st = (r, st1) \<Longrightarrow>
     keeps_loop_vars st st1 \<and> extractions st1 \<le> extractions st + 2 \<and>
     syntheses st1 \<le> syntheses st + 1"
proof -
  assume a: "loop_items env payload st = (r, st1)"
  obtain r1 sa where 1: "resolve_selector payload st = (r1, sa)"
    by (cases "resolve_selector payload st")
  note e1 = resolve_selector_effect [OF 1]
  show ?thesis
  proof (cases r1)
    case (Some e)
    with a 1 have "st1 = sa" by (simp add: loop_items_def)
    with e1 show ?thesis by (simp add: extractions_def syntheses_def)
  next
    case None
    note r1 = None
    obtain r2 sb where 2: "extract_items env payload sa = (r2, sb)"
      by (cases "extract_items env payload sa")
    note e2 = extract_items_effect [OF 2]
    have k2: "keeps_loop_vars st sb" using e1 e2 by (blast intro: keeps_loop_vars_trans)
    have c2: "extractions sb = Suc (extractions st)" "syntheses sb = syntheses st"
      using e1 e2 by (simp_all add: extractions_def syntheses_def)
    show ?thesis
    proof (cases r2)
      case (Inl e)
      with a 1 2 r1 have "st1 = sb" by (simp add: loop_items_def)
      with k2 c2 show ?thesis by simp
    next
      case (Inr items0)
      note r2 = Inr
      show ?thesis
      proof (cases "items0 = []")
        case False
        with a 1 2 r1 r2 have "st1 = sb" by (simp add: loop_items_def)
        with k2 c2 show ?thesis by simp
      next
        case True
        obtain r3 sc where 3: "regenerate_items env payload sb = (r3, sc)"
          by (cases "regenerate_items env payload sb")
        from regenerate_items_effect [OF 3] obtain evs where
          k3: "keeps_loop_vars sb sc" and ev: "st_events sc = st_events sb @ evs"
          and n: "length (filter is_Synthesized evs) \<le> 1" "length (filter is_Extracted evs) \<le> 1"
          by blast
        have "st1 = sc" using a 1 2 3 r1 r2 True
          by (cases r3) (simp_all add: loop_items_def)
        moreover have "keeps_loop_vars st sc" using k2 k3 by (rule keeps_loop_vars_trans)
        moreover have "extractions sc \<le> extractions st + 2" "syntheses sc \<le> syntheses st + 1"
          using c2 ev n by (simp_all add: extractions_def syntheses_def)
        ultimately show ?thesis by simp
      qed
    qed
  qed
qed

lemma iterate_failure_message:
  "iterate env payload creds options n i items st = (Some e, st1) \<Longrightarrow>
     \<exists>j item callError. e = Error (item_error env j n item callError)"
proof (induction items arbitrary: i st)
  case Nil
  then show ?case by simp
next
  case (Cons item rest)
  then show ?case
    by (auto simp: Let_def split: prod.splits option.splits)
qed

lemma item_error_nonempty: "item_error env i n item callError \<noteq> []"
  by (simp add: item_error_def)

lemma enter_counts [simp]:
  "executions (enter step w) = 0" "extractions (enter step w) = 0" "syntheses (enter step w) = 0"
  "stepResults (enter step w) = []" "st_step (enter step w) = step"
  "successfulConfig (enter step w) = None"
  by (simp_all add: enter_def executions_def extractions_def syntheses_def)



lemma pair_with_snd: "fst p = a \<Longrightarrow> p = (a, snd p)"
  by (cases p) simp

subsection \<open>Claims\<close>

text \<open>
  C5. Both strategies return a \<open>WorkflowStepResult\<close> for every input and never
  propagate an exception. What the Direct Strategy's \<open>try\<close> block throws (the executor's
  or the mapping's failure) becomes \<open>success = false\<close> with the text
  \<open>Error in direct execution for step <id>: <error>\<close>; what the Loop Strategy's
  \<open>try\<close> block throws becomes \<open>success = false\<close> with the error's message (the
  error itself, should its message be empty). The failure of selector resolution and
  every failure during iteration (the executor's or the mapping's, rethrown with the
  item's position) carry a non-empty message, so their result holds a string.
\<close>

theorem strategies_never_throw:
  "(\<exists>r. fst (directStrategy_execute env step payload creds options w) = Inr r) \<and>
   (\<exists>r. fst (loopStrategy_execute env step payload creds options w) = Inr r) \<and>
   (\<exists>r. fst (execute (selectStrategy step) env step payload creds options w) = Inr r) \<and>
   (\<forall>e st. direct_try env step payload creds options (enter step w) = (Inl e, st) \<longrightarrow>
      directStrategy_execute env step payload creds options w =
        (Inr \<lparr>result_stepId = stepId step, result_success = False, result_config = apiConfig step,
              result_rawData = None, result_transformedData = None,
              result_error = Some (ErrorText (''Error in direct execution for step '' @ stepId step @
                                              '': '' @ String_thrown e))\<rparr>, st)) \<and>
   (\<forall>e st. loop_try env step payload creds options (enter step w) = (Inl e, st) \<longrightarrow>
      loopStrategy_execute env step payload creds options w =
        (Inr \<lparr>result_stepId = stepId step, result_success = False,
              result_config = apiConfig (st_step st),
              result_rawData = None, result_transformedData = None,
              result_error = Some (if message e \<noteq> [] then ErrorText (message e) else ErrorObject e)\<rparr>,
         st)) \<and>
   (\<forall>st e st'. resolve_selector payload st = (Some e, st') \<longrightarrow>
      message e = ''loopSelector is required for LOOP execution mode'') \<and>
   (\<forall>n i items st e st'. iterate env payload creds options n i items st = (Some e, st') \<longrightarrow>
      message e \<noteq> [])"
proof -
  have d: "\<exists>r. fst (directStrategy_execute env step payload creds options w) = Inr r"
    by (auto simp: directStrategy_execute_def try_catch_def direct_catch_def
             split: prod.splits sum.splits)
  have l: "\<exists>r. fst (loopStrategy_execute env step payload creds options w) = Inr r"
    by (auto simp: loopStrategy_execute_def try_catch_def loop_catch_def
             split: prod.splits sum.splits)
  have x: "\<exists>r. fst (execute (selectStrategy step) env step payload creds options w) = Inr r"
    using d l by (cases "selectStrategy step") (simp_all add: execute_def)
  have dc: "\<forall>e st. direct_try env step payload creds options (enter step w) = (Inl e, st) \<longrightarrow>
      directStrategy_execute env step payload creds options w =
        (Inr \<lparr>result_stepId = stepId step, result_success = False, result_config = apiConfig step,
              result_rawData = None, result_transformedData = None,
              result_error = Some (ErrorText (''Error in direct execution for step '' @ stepId step @
                                              '': '' @ String_thrown e))\<rparr>, st)"
    by (simp add: directStrategy_execute_def try_catch_def direct_catch_def initial_result_def
                  direct_error_def)
  have lc: "\<forall>e st. loop_try env step payload creds options (enter step w) = (Inl e, st) \<longrightarrow>
      loopStrategy_execute env step payload creds options w =
        (Inr \<lparr>result_stepId = stepId step, result_success = False,
              result_config = apiConfig (st_step st),
              result_rawData = None, result_transformedData = None,
              result_error = Some (if message e \<noteq> [] then ErrorText (message e) else ErrorObject e)\<rparr>,
         st)"
    by (simp add: loopStrategy_execute_def try_catch_def loop_catch_def initial_result_def
                  caught_error_def)
  have rs: "\<forall>st e st'. resolve_selector payload st = (Some e, st') \<longrightarrow>
      message e = ''loopSelector is required for LOOP execution mode''"
    by (auto simp: resolve_selector_def selector_required_def Error_def split: if_splits)
  have it: "\<forall>n i items st e st'. iterate env payload creds options n i items st = (Some e, st') \<longrightarrow>
      message e \<noteq> []"
    using iterate_failure_message [of env payload creds options]
    by (fastforce simp: Error_def item_error_nonempty)
  from d l x dc lc rs it show ?thesis by blast
qed

theorem strategies_never_throw_witness:
  "fst (direct_try demo_strategy_env (demo_step ''DIRECT'' None) (JObj [(''currentItem'', JStr ''bad'')])
          [] (demo_options None None) (enter (demo_step ''DIRECT'' None) 0)) =
     Inl (Error ''401 Unauthorized'') \<and>
   fst (directStrategy_execute demo_strategy_env (demo_step ''DIRECT'' None)
          (JObj [(''currentItem'', JStr ''bad'')]) [] (demo_options None None) 0) =
     Inr \<lparr>result_stepId = ''step1'', result_success = False,
          result_config = demo_config ''down'' ''list users'',
          result_rawData = None, result_transformedData = None,
          result_error = Some (ErrorText
            ''Error in direct execution for step step1: Error: 401 Unauthorized'')\<rparr>"
proof -
  let ?body = "direct_try demo_strategy_env (demo_step ''DIRECT'' None)
                 (JObj [(''currentItem'', JStr ''bad'')]) [] (demo_options None None)
                 (enter (demo_step ''DIRECT'' None) (0::nat))"
  have f: "fst ?body = Inl (Error ''401 Unauthorized'')" by code_simp
  have p: "?body = (Inl (Error ''401 Unauthorized''), snd ?body)"
    using f by (rule pair_with_snd)
  have s: "String_thrown (Error ''401 Unauthorized'') = ''Error: 401 Unauthorized''" by code_simp
  have c: "stepId (demo_step ''DIRECT'' None) = ''step1''"
          "apiConfig (demo_step ''DIRECT'' None) = demo_config ''down'' ''list users''"
    by (simp_all add: demo_step_def)
  from strategies_never_throw
         [where env = demo_strategy_env and step = "demo_step ''DIRECT'' None"
            and payload = "JObj [(''currentItem'', JStr ''bad'')]" and creds = "[]"
            and options = "demo_options None None" and w = 0]
  have "\<forall>e st. ?body = (Inl e, st) \<longrightarrow>
      directStrategy_execute demo_strategy_env (demo_step ''DIRECT'' None)
          (JObj [(''currentItem'', JStr ''bad'')]) [] (demo_options None None) 0 =
        (Inr \<lparr>result_stepId = stepId (demo_step ''DIRECT'' None), result_success = False,
              result_config = apiConfig (demo_step ''DIRECT'' None),
              result_rawData = None, result_transformedData = None,
              result_error = Some (ErrorText (''Error in direct execution for step '' @
                                              stepId (demo_step ''DIRECT'' None) @
                                              '': '' @ String_thrown e))\<rparr>, st)"
    by (rule conjunct2 [THEN conjunct2, THEN conjunct2, THEN conjunct1])
  from this [rule_format, OF p] f show ?thesis
    by (simp add: s c)
qed

text \<open>
  C6. When the iterations before item \<open>i\<close> of \<open>n\<close> complete and the executor fails
  on item \<open>i\<close>, the failing call is the last invocation of the execution and the
  executor has been called \<open>i\<close> times; the result has \<open>success = false\<close>, no raw and
  no transformed data, and the error reads
  \<open>Error processing item i/n '<item>...': <error>\<close> with the item's rendering cut to
  50 characters.
\<close>

theorem loop_aborts_on_item_failure:
  assumes "loop_items env payload (enter step w) = (Inr (pre @ item # post), st0)"
      and "iterate env payload creds options (length (pre @ item # post)) 0 pre st0 = (None, st1)"
      and "fst (executeApiCall_api env (current_config st1)
                  (loop_payload env payload (current_item item)) creds
                  (options\<lparr>testMode := Some False\<rparr>) (st_world st1)) = Inl callError"
  shows "loopStrategy_execute env step payload creds options w =
           (Inr \<lparr>result_stepId = stepId step, result_success = False,
                 result_config = apiConfig (st_step st1),
                 result_rawData = None, result_transformedData = None,
                 result_error = Some (ErrorText
                   (''Error processing item '' @ string_of_nat (length pre + 1) @ ''/'' @
                    string_of_nat (length pre + 1 + length post) @ '' '' @ [CHR 0x27] @
                    take 50 (stringify env (current_item item)) @ ''...'' @ [CHR 0x27] @ '': '' @
                    String_thrown callError))\<rparr>,
            st1\<lparr>st_world := snd (executeApiCall_api env (current_config st1)
                                  (loop_payload env payload (current_item item)) creds
                                  (options\<lparr>testMode := Some False\<rparr>) (st_world st1)),
                st_events := st_events st1 @
                  [Executed (current_config st1) (loop_payload env payload (current_item item))
                     (options\<lparr>testMode := Some False\<rparr>)]\<rparr>) \<and>
         executions (snd (loopStrategy_execute env step payload creds options w)) = Suc (length pre) \<and>
         length (take 50 (stringify env (current_item item))) \<le> 50"
proof -
  let ?n = "length (pre @ item # post)"
  let ?st2 = "st1\<lparr>st_world := snd (executeApiCall_api env (current_config st1)
                                  (loop_payload env payload (current_item item)) creds
                                  (options\<lparr>testMode := Some False\<rparr>) (st_world st1)),
                st_events := st_events st1 @
                  [Executed (current_config st1) (loop_payload env payload (current_item item))
                     (options\<lparr>testMode := Some False\<rparr>)]\<rparr>"
  let ?txt = "item_error env (length pre) ?n (current_item item) callError"
  have it: "iterate env payload creds options ?n 0 (pre @ item # post) st0 = (Some (Error ?txt), ?st2)"
    using assms(2) iteration_try_executor_failure [OF assms(3)]
    by (simp add: iterate_append Let_def)
  have lt: "loop_try env step payload creds options (enter step w) = (Inl (Error ?txt), ?st2)"
    using assms(1) it by (simp add: loop_try_def)
  have ne: "message (Error ?txt) \<noteq> []" by (simp add: Error_def item_error_nonempty)
  have run: "loopStrategy_execute env step payload creds options w =
      (Inr ((initial_result step)\<lparr>result_config := apiConfig (st_step ?st2), result_success := False,
             result_error := Some (ErrorText ?txt)\<rparr>), ?st2)"
    using lt ne
    by (simp add: loopStrategy_execute_def try_catch_def loop_catch_def caught_error_def Error_def)
  have e0: "executions st0 = 0"
    using loop_items_effect [OF assms(1)] by (simp add: keeps_loop_vars_def)
  have e1: "executions st1 = length pre"
    using iterate_effect [OF assms(2), of step] e0 by simp
  have e2: "executions ?st2 = Suc (length pre)"
    using e1 by (simp add: executions_def)
  show ?thesis
    unfolding run using e2
    by (simp add: initial_result_def item_error_def)
qed

theorem loop_aborts_on_item_failure_witness:
  "fst (loop_items demo_strategy_env bad_item_payload (enter (demo_step ''LOOP'' (Some ''items'')) 0)) =
     Inr ([JStr ''a''] @ JStr ''bad'' # [JStr ''c'']) \<and>
   fst (iterate demo_strategy_env bad_item_payload [] (demo_options None None) 3 0 [JStr ''a'']
          (snd (loop_items demo_strategy_env bad_item_payload
                  (enter (demo_step ''LOOP'' (Some ''items'')) 0)))) = None \<and>
   fst (loopStrategy_execute demo_strategy_env (demo_step ''LOOP'' (Some ''items'')) bad_item_payload
          [] (demo_options None None) 0) =
     Inr \<lparr>result_stepId = ''step1'', result_success = False,
          result_config = demo_config ''api.example.com'' ''list users'',
          result_rawData = None, result_transformedData = None,
          result_error = Some (ErrorText
            (''Error processing item 2/3 '' @ [CHR 0x27, CHR 0x22] @ ''bad'' @ [CHR 0x22] @ ''...'' @
             [CHR 0x27] @ '': Error: 401 Unauthorized''))\<rparr> \<and>
   executions (snd (loopStrategy_execute demo_strategy_env (demo_step ''LOOP'' (Some ''items''))
                      bad_item_payload [] (demo_options None None) 0)) = 2"
proof -
  let ?step = "demo_step ''LOOP'' (Some ''items'')"
  let ?opts = "demo_options None None"
  let ?li = "loop_items demo_strategy_env bad_item_payload (enter ?step (0::nat))"
  let ?it = "iterate demo_strategy_env bad_item_payload [] ?opts
               (length ([JStr ''a''] @ JStr ''bad'' # [JStr ''c''])) 0 [JStr ''a''] (snd ?li)"
  have f1: "fst ?li = Inr ([JStr ''a''] @ JStr ''bad'' # [JStr ''c''])" by code_simp
  have f2: "fst ?it = None" by code_simp
  have h1: "?li = (Inr ([JStr ''a''] @ JStr ''bad'' # [JStr ''c'']), snd ?li)"
    using f1 by (rule pair_with_snd)
  have h2: "?it = (None, snd ?it)"
    using f2 by (rule pair_with_snd)
  have h3: "fst (executeApiCall_api demo_strategy_env (current_config (snd ?it))
                  (loop_payload demo_strategy_env bad_item_payload (current_item (JStr ''bad''))) []
                  (?opts\<lparr>testMode := Some False\<rparr>) (st_world (snd ?it))) =
              Inl (Error ''401 Unauthorized'')"
    by code_simp
  have c: "fst (loopStrategy_execute demo_strategy_env ?step bad_item_payload [] ?opts 0) =
     Inr \<lparr>result_stepId = ''step1'', result_success = False,
          result_config = demo_config ''api.example.com'' ''list users'',
          result_rawData = None, result_transformedData = None,
          result_error = Some (ErrorText
            (''Error processing item 2/3 '' @ [CHR 0x27, CHR 0x22] @ ''bad'' @ [CHR 0x22] @ ''...'' @
             [CHR 0x27] @ '': Error: 401 Unauthorized''))\<rparr>"
    by code_simp
  have n: "length ([JStr ''a''] @ JStr ''bad'' # [JStr ''c'']) = 3" by simp
  from loop_aborts_on_item_failure [OF h1 h2 h3]
  have "executions (snd (loopStrategy_execute demo_strategy_env ?step bad_item_payload [] ?opts 0)) =
          Suc (length [JStr ''a''])"
    by (rule conjunct2 [THEN conjunct1])
  then show ?thesis using f1 f2 c unfolding n by simp
qed

text \<open>
  C7 (as the code has it). When the first extraction yields no item, the selector is
  regenerated at most once (exactly once when the payload's keys can be listed) and
  extraction runs at most twice: the second time exactly when the regeneration returns
  non-empty mapping code, and never a third time. When the fallback ends with no item, the
  loop runs zero iterations, the executor is never called, and the result has
  \<open>success = true\<close> with empty data.
\<close>

theorem empty_selection_fallback:
  assumes "resolve_selector payload (enter step w) = (None, sa)"
      and "extract_items env payload sa = (Inr [], sb)"
  shows "syntheses (snd (loopStrategy_execute env step payload creds options w)) \<le> 1 \<and>
         extractions (snd (loopStrategy_execute env step payload creds options w)) \<le> 2 \<and>
         (syntheses (snd (loopStrategy_execute env step payload creds options w)) = 1) =
           (\<exists>entries. own_entries payload = Inr entries) \<and>
         (extractions (snd (loopStrategy_execute env step payload creds options w)) = 2) =
           (\<exists>entries code. own_entries payload = Inr entries \<and> code \<noteq> [] \<and>
              fst (generateTransformCode env arraySchema payload
                     (selector_instruction (st_step sb) entries) (st_world sb)) = Inr (Some code)) \<and>
         (\<forall>sc. regenerate_items env payload sb = (Inr [], sc) \<longrightarrow>
            loopStrategy_execute env step payload creds options w =
              (Inr \<lparr>result_stepId = stepId step, result_success = True,
                    result_config = apiConfig step,
                    result_rawData = Some (JArr []), result_transformedData = Some (JArr []),
                    result_error = Some (ErrorText [])\<rparr>, sc) \<and>
            executions sc = 0)"
proof -
  let ?fin = "snd (loopStrategy_execute env step payload creds options w)"
  obtain r3 sc where 3: "regenerate_items env payload sb = (r3, sc)"
    by (cases "regenerate_items env payload sb")
  from regenerate_items_effect [OF 3] obtain evs where
    k3: "keeps_loop_vars sb sc" and ev: "st_events sc = st_events sb @ evs"
    and n: "length (filter is_Synthesized evs) \<le> 1" "length (filter is_Extracted evs) \<le> 1"
    and s1: "(length (filter is_Synthesized evs) = 1) = (\<exists>entries. own_entries payload = Inr entries)"
    and x1: "(length (filter is_Extracted evs) = 1) =
              (\<exists>entries code. own_entries payload = Inr entries \<and> code \<noteq> [] \<and>
                 fst (generateTransformCode env arraySchema payload
                        (selector_instruction (st_step sb) entries) (st_world sb)) = Inr (Some code))"
    by blast
  note e1 = resolve_selector_effect [OF assms(1)]
  note e2 = extract_items_effect [OF assms(2)]
  have cb: "extractions sb = 1" "syntheses sb = 0"
    using e1 e2 by (simp_all add: extractions_def syntheses_def enter_def)
  have cc: "extractions sc = 1 + length (filter is_Extracted evs)"
           "syntheses sc = length (filter is_Synthesized evs)"
    using cb ev by (simp_all add: extractions_def syntheses_def)
  have kc: "keeps_loop_vars (enter step w) sc"
    using e1 e2 k3 by (blast intro: keeps_loop_vars_trans)
  have li: "loop_items env payload (enter step w) =
      (case r3 of Inl e \<Rightarrow> (Inl e, sc)
       | Inr items1 \<Rightarrow> (Inr (slice0 items1 (max_iters env (st_step sc))), sc))"
    using assms 3 by (simp add: loop_items_def split: sum.splits)
  have fin: "extractions ?fin = extractions sc \<and> syntheses ?fin = syntheses sc"
  proof (cases r3)
    case (Inl e)
    then show ?thesis using li
      by (simp add: loopStrategy_execute_def loop_try_def try_catch_def loop_catch_def)
  next
    case (Inr items1)
    let ?items = "slice0 items1 (max_iters env (st_step sc))"
    obtain r4 sd where 4: "iterate env payload creds options (length ?items) 0 ?items sc = (r4, sd)"
      by (cases "iterate env payload creds options (length ?items) 0 ?items sc")
    have "?fin = sd" using li Inr 4
      by (cases r4)
         (simp_all add: loopStrategy_execute_def loop_try_def try_catch_def loop_catch_def)
    then show ?thesis using iterate_effect [OF 4, of step] by simp
  qed
  have zero: "\<forall>sc'. regenerate_items env payload sb = (Inr [], sc') \<longrightarrow>
            loopStrategy_execute env step payload creds options w =
              (Inr \<lparr>result_stepId = stepId step, result_success = True,
                    result_config = apiConfig step,
                    result_rawData = Some (JArr []), result_transformedData = Some (JArr []),
                    result_error = Some (ErrorText [])\<rparr>, sc') \<and>
            executions sc' = 0"
  proof (intro allI impI)
    fix sc'
    assume z: "regenerate_items env payload sb = (Inr [], sc')"
    with 3 have r3: "r3 = Inr []" and sc: "sc' = sc" by simp_all
    have "loopStrategy_execute env step payload creds options w =
            (Inr (aggregate (initial_result step) sc), sc)"
      using li r3
      by (simp add: loopStrategy_execute_def loop_try_def try_catch_def slice0_def)
    moreover have "stepResults sc = []" "apiConfig (st_step sc) = apiConfig step" "executions sc = 0"
      using kc by (simp_all add: keeps_loop_vars_def)
    ultimately show "loopStrategy_execute env step payload creds options w =
              (Inr \<lparr>result_stepId = stepId step, result_success = True,
                    result_config = apiConfig step,
                    result_rawData = Some (JArr []), result_transformedData = Some (JArr []),
                    result_error = Some (ErrorText [])\<rparr>, sc') \<and>
            executions sc' = 0"
      using sc by (simp add: aggregate_def initial_result_def)
  qed
  show ?thesis
    using fin cc n s1 x1 zero by auto
qed

theorem empty_selection_fallback_witness:
  "fst (resolve_selector hinted_payload (enter (demo_step ''LOOP'' (Some ''items'')) (0::nat))) = None \<and>
   fst (extract_items demo_strategy_env hinted_payload
          (snd (resolve_selector hinted_payload (enter (demo_step ''LOOP'' (Some ''items'')) 0)))) =
     Inr [] \<and>
   fst (loopStrategy_execute demo_strategy_env (demo_step ''LOOP'' (Some ''items'')) hinted_payload
          [] (demo_options None None) 0) =
     Inr \<lparr>result_stepId = ''step1'', result_success = True,
          result_config = demo_config ''down'' ''list users'',
          result_rawData = Some (JArr []), result_transformedData = Some (JArr []),
          result_error = Some (ErrorText [])\<rparr> \<and>
   syntheses (snd (loopStrategy_execute demo_strategy_env (demo_step ''LOOP'' (Some ''items''))
                     hinted_payload [] (demo_options None None) 0)) = 1 \<and>
   extractions (snd (loopStrategy_execute demo_strategy_env (demo_step ''LOOP'' (Some ''items''))
                     hinted_payload [] (demo_options None None) 0)) = 2"
proof -
  let ?step = "demo_step ''LOOP'' (Some ''items'')"
  let ?opts = "demo_options None None"
  let ?rs = "resolve_selector hinted_payload (enter ?step (0::nat))"
  let ?ex = "extract_items demo_strategy_env hinted_payload (snd ?rs)"
  let ?rg = "regenerate_items demo_strategy_env hinted_payload (snd ?ex)"
  have f1: "fst ?rs = None" by code_simp
  have f2: "fst ?ex = Inr []" by code_simp
  have f3: "fst ?rg = Inr []" by code_simp
  have h1: "?rs = (None, snd ?rs)" using f1 by (rule pair_with_snd)
  have h2: "?ex = (Inr [], snd ?ex)" using f2 by (rule pair_with_snd)
  have h3: "?rg = (Inr [], snd ?rg)" using f3 by (rule pair_with_snd)
  have c: "stepId ?step = ''step1''" "apiConfig ?step = demo_config ''down'' ''list users''"
    by (simp_all add: demo_step_def)
  have n: "syntheses (snd (loopStrategy_execute demo_strategy_env ?step hinted_payload [] ?opts 0)) = 1"
          "extractions (snd (loopStrategy_execute demo_strategy_env ?step hinted_payload [] ?opts 0)) = 2"
    by code_simp+
  note t = empty_selection_fallback [OF h1 h2, where creds = "[]" and options = ?opts]
  from t have "\<forall>sc. ?rg = (Inr [], sc) \<longrightarrow>
            loopStrategy_execute demo_strategy_env ?step hinted_payload [] ?opts 0 =
              (Inr \<lparr>result_stepId = stepId ?step, result_success = True,
                    result_config = apiConfig ?step,
                    result_rawData = Some (JArr []), result_transformedData = Some (JArr []),
                    result_error = Some (ErrorText [])\<rparr>, sc) \<and>
            executions sc = 0"
    by (rule conjunct2 [THEN conjunct2, THEN conjunct2, THEN conjunct2])
  from this [rule_format, OF h3] f1 f2 n show ?thesis
    by (simp add: c)
qed

text \<open>
  C7 as stated fails: when the regeneration returns no mapping code, the extraction is
  not repeated at all; the run still succeeds with zero iterations.
\<close>

theorem no_second_extraction_counterexample:
  "fst (extract_items demo_strategy_env empty_items_payload
          (enter (demo_step ''LOOP'' (Some ''items'')) 0)) = Inr [] \<and>
   syntheses (snd (loopStrategy_execute demo_strategy_env (demo_step ''LOOP'' (Some ''items''))
                     empty_items_payload [] (demo_options None None) 0)) = 1 \<and>
   extractions (snd (loopStrategy_execute demo_strategy_env (demo_step ''LOOP'' (Some ''items''))
                     empty_items_payload [] (demo_options None None) 0)) = 1 \<and>
   result_success (projr (fst (loopStrategy_execute demo_strategy_env (demo_step ''LOOP'' (Some ''items''))
                     empty_items_payload [] (demo_options None None) 0)))"
  by code_simp




end
